theory Spec2Isabelle
  imports Complex_Main "HOL-Library.Word"
begin

unbundle bit_operations_syntax

section \<open>Shared display data (NavigationDisplay)\<close>

text \<open>
  JavaScript numbers are modelled as exact reals: the claims below depend on the order
  of a few decimal constants and on one non-integral quotient, never on rounding.
\<close>

datatype EfisSide = L | R

text \<open>The map modes of a navigation display; only ARC, ROSE-NAV and PLAN have an edit area.\<close>

datatype EfisNdMode = ROSE_ILS | ROSE_VOR | ROSE_NAV | ARC | PLAN

datatype EfisOption = None_option | Constraints | VorDmes | Waypoints | Ndbs | Airports

record Coordinates =
  lat :: real
  long :: real

text \<open>
  An NdSymbol. Optional fields of the TypeScript interface are options; \<open>type\<close> is a
  bit mask that JavaScript's \<open>|\<close> treats as a 32-bit integer.
\<close>

record NdSymbol =
  databaseId :: string
  ident :: string
  location :: "Coordinates option"
  type :: "32 word"
  constraints :: "string list option"
  direction :: "real option"
  length_nm :: "real option"
  radials :: "real list option"
  radii :: "real list option"

section \<open>EfisSymbols.calculateEditArea\<close>

definition calculateEditArea :: "real \<Rightarrow> EfisNdMode \<Rightarrow> real \<times> real \<times> real" where
  "calculateEditArea rng mode =
     (case mode of
        ARC \<Rightarrow>
          if rng \<le> 10 then (10.5, 3.5, 8.3)
          else if rng \<le> 20 then (20.5, 7, 16.6)
          else if rng \<le> 40 then (40.5, 14, 33.2)
          else if rng \<le> 80 then (80.5, 28, 66.4)
          else if rng \<le> 160 then (160.5, 56, 132.8)
          else (320.5, 112, 265.6)
      | ROSE_NAV \<Rightarrow>
          if rng \<le> 10 then (7.6, 7.1, 7.1)
          else if rng \<le> 20 then (14.7, 14.2, 14.2)
          else if rng \<le> 40 then (28.9, 28.4, 28.4)
          else if rng \<le> 80 then (57.3, 56.8, 56.8)
          else if rng \<le> 160 then (114.1, 113.6, 113.6)
          else (227.7, 227.2, 227.2)
      | PLAN \<Rightarrow>
          if rng \<le> 10 then (7, 7, 7)
          else if rng \<le> 20 then (14, 14, 14)
          else if rng \<le> 40 then (28, 28, 28)
          else if rng \<le> 80 then (56, 56, 56)
          else if rng \<le> 160 then (112, 112, 112)
          else (224, 224, 224)
      | _ \<Rightarrow> (0, 0, 0))"

text \<open>
  The lookup table of the specification, written from its words: one row per mode, one
  column per range band, the band of a range being the first of
  \<open>\<le>10, \<le>20, \<le>40, \<le>80, \<le>160, else\<close> that holds.
\<close>

datatype table_mode = Row_ARC | Row_ROSE_NAV | Row_PLAN

fun mode_of_row :: "table_mode \<Rightarrow> EfisNdMode" where
  "mode_of_row Row_ARC = ARC"
| "mode_of_row Row_ROSE_NAV = ROSE_NAV"
| "mode_of_row Row_PLAN = PLAN"

definition range_band :: "real \<Rightarrow> nat" where
  "range_band rng =
     (if rng \<le> 10 then 0 else if rng \<le> 20 then 1 else if rng \<le> 40 then 2
      else if rng \<le> 80 then 3 else if rng \<le> 160 then 4 else 5)"

fun spec_table_row :: "table_mode \<Rightarrow> (real \<times> real \<times> real) list" where
  "spec_table_row Row_ARC =
     [(10.5, 3.5, 8.3), (20.5, 7, 16.6), (40.5, 14, 33.2),
      (80.5, 28, 66.4), (160.5, 56, 132.8), (320.5, 112, 265.6)]"
| "spec_table_row Row_ROSE_NAV =
     [(7.6, 7.1, 7.1), (14.7, 14.2, 14.2), (28.9, 28.4, 28.4),
      (57.3, 56.8, 56.8), (114.1, 113.6, 113.6), (227.7, 227.2, 227.2)]"
| "spec_table_row Row_PLAN =
     [(7, 7, 7), (14, 14, 14), (28, 28, 28), (56, 56, 56), (112, 112, 112), (224, 224, 224)]"

definition spec_edit_area :: "real \<Rightarrow> table_mode \<Rightarrow> real \<times> real \<times> real" where
  "spec_edit_area rng m = spec_table_row m ! range_band rng"

section \<open>EfisSymbols.update: the working symbol list\<close>

text \<open>
  \<open>Array.prototype.findIndex\<close>: the index of the first element that satisfies the
  predicate; JavaScript's \<open>-1\<close> is \<open>None\<close>.
\<close>

fun findIndex :: "('a \<Rightarrow> bool) \<Rightarrow> 'a list \<Rightarrow> nat option" where
  "findIndex P [] = None"
| "findIndex P (x # xs) = (if P x then Some 0 else map_option Suc (findIndex P xs))"

text \<open>The operator \<open>a ?? b\<close> on an optional field: \<open>b\<close> only when \<open>a\<close> is undefined.\<close>

definition nullish :: "'a option \<Rightarrow> 'a option \<Rightarrow> 'a option" where
  "nullish a b = (case a of None \<Rightarrow> b | Some v \<Rightarrow> Some v)"

text \<open>
  The block that merges the radials (and, in the same way, the radii) of the entry that
  was found into the symbol being inserted: an array, even an empty one, is truthy, and
  \<open>push(...old)\<close> appends the old values after the symbol's own.
\<close>

definition mergeRings :: "real list option \<Rightarrow> real list option \<Rightarrow> real list option" where
  "mergeRings new old =
     (case old of
        None \<Rightarrow> new
      | Some os \<Rightarrow> (case new of Some ns \<Rightarrow> Some (ns @ os) | None \<Rightarrow> Some os))"

text \<open>
  The fields of \<open>symbol\<close> after the body of \<open>if (symbolIdx !== -1)\<close> has run
  against \<open>oldSymbol\<close>.
\<close>

definition mergeSymbol :: "NdSymbol \<Rightarrow> NdSymbol \<Rightarrow> NdSymbol" where
  "mergeSymbol symbol oldSymbol =
     symbol\<lparr>
       constraints := nullish (constraints symbol) (constraints oldSymbol),
       direction := nullish (direction symbol) (direction oldSymbol),
       length_nm := nullish (length_nm symbol) (length_nm oldSymbol),
       location := nullish (location symbol) (location oldSymbol),
       type := type symbol OR type oldSymbol,
       radials := mergeRings (radials symbol) (radials oldSymbol),
       radii := mergeRings (radii symbol) (radii oldSymbol)\<rparr>"

text \<open>
  upsertSymbol, the closure of the per-side pass, with the list \<open>symbols\<close> it mutates
  passed in and returned. The symbol is passed by value: every call site builds a fresh
  object, and the object pushed is the argument after the merge.
\<close>

definition upsertSymbol :: "NdSymbol list \<Rightarrow> NdSymbol \<Rightarrow> NdSymbol list" where
  "upsertSymbol symbols symbol =
     (case findIndex (\<lambda>s. databaseId s = databaseId symbol) symbols of
        None \<Rightarrow> symbols @ [symbol]
      | Some symbolIdx \<Rightarrow>
          (take symbolIdx symbols @ drop (Suc symbolIdx) symbols)
            @ [mergeSymbol symbol (symbols ! symbolIdx)])"

text \<open>A \<open>for (const symbol of xs) upsertSymbol(symbol)\<close> loop.\<close>

definition upsertAll :: "NdSymbol list \<Rightarrow> NdSymbol list \<Rightarrow> NdSymbol list" where
  "upsertAll symbols xs = foldl upsertSymbol symbols xs"

text \<open>The bitwise OR of the type flags of the symbols of a list that carry one identifier.\<close>

definition typeFlagsOf :: "string \<Rightarrow> NdSymbol list \<Rightarrow> 32 word" where
  "typeFlagsOf k xs = foldr (OR) (map type (filter (\<lambda>s. databaseId s = k) xs)) 0"

section \<open>Flight plans, as the flight-plan service hands them out\<close>

text \<open>
  The flight-plan classes are collaborators. A plan is the record of what the two
  controllers read from it; \<open>FlightPlan\<close> extends \<open>BaseFlightPlan\<close> by its alternate
  plan, as the class does. An element is a discontinuity or a leg, a leg carrying
  \<open>terminationWaypoint()?.location\<close>.
\<close>

datatype FlightPlanElement = Discontinuity | Leg "Coordinates option"

record BaseFlightPlan =
  version :: int
  activeLegIndex :: int
  legCount :: nat
  hasElement :: "int \<Rightarrow> bool"
  elementAt :: "int \<Rightarrow> FlightPlanElement option"

record FlightPlan = BaseFlightPlan +
  alternateFlightPlan :: BaseFlightPlan

text \<open>\<open>flightPlanService.has(i)\<close> is \<open>service i \<noteq> None\<close>, \<open>get(i)\<close> the plan.\<close>

type_synonym FlightPlanService = "nat \<Rightarrow> FlightPlan option"

text \<open>The numbers of the enumeration FlightPlanIndex, which the flight-plan manager declares.\<close>

record FlightPlanIndex =
  Active :: nat
  Temporary :: nat
  FirstSecondary :: nat

section \<open>GuidanceController\<close>

datatype exn = Error string

text \<open>
  The two EfisState objects live in the fields \<open>leftEfisState\<close> and
  \<open>rightEfisState\<close>; \<open>efisStateForSide\<close> holds a reference to one of them for each
  side, so a write through it lands in the object it points to.
\<close>

record EfisState =
  mode_nd :: EfisNdMode
  range_nm :: real
  dataLimitReached :: bool
  legsCulled :: bool

datatype EfisStateRef = LeftEfisState | RightEfisState

text \<open>
  The controller: its own fields, the browser console, the two SimVars that
  updateMapPartlyDisplayed writes, and \<open>ext\<close>, the state of every collaborator (drivers,
  task queue, observers, the other SimVars). \<open>'g\<close> is the class Geometry.
\<close>

record ('g, 'x) GuidanceController =
  leftEfisState :: EfisState
  rightEfisState :: EfisState
  efisStateForSide :: "EfisSide \<Rightarrow> EfisStateRef"
  geometryRecomputationTimer :: real
  lastFlightPlanVersions :: "nat \<rightharpoonup> int"
  flightPlanGeometries :: "nat \<rightharpoonup> 'g"
  MAP_PARTLY_DISPLAYED :: "EfisSide \<Rightarrow> bool"
  console :: "string list"
  ext :: 'x

text \<open>
  A statement either completes or throws, and has changed the state up to that point
  in both cases.
\<close>

type_synonym 's stmt = "'s \<Rightarrow> exn option \<times> 's"

fun sequence :: "'s stmt list \<Rightarrow> 's stmt" where
  "sequence [] s = (None, s)"
| "sequence (a # rest) s =
     (case a s of (None, s') \<Rightarrow> sequence rest s' | (Some e, s') \<Rightarrow> (Some e, s'))"

definition errorMessage :: "exn \<Rightarrow> string" where
  "errorMessage e = (case e of Error m \<Rightarrow> m)"

text \<open>\<open>try { body } catch (e) { console.error(msg); console.error(e); }\<close>\<close>

definition tryCatch ::
  "string \<Rightarrow> ('g, 'x) GuidanceController stmt \<Rightarrow> ('g, 'x) GuidanceController stmt" where
  "tryCatch msg body s =
     (case body s of
        (None, s') \<Rightarrow> (None, s')
      | (Some e, s') \<Rightarrow> (None, s'\<lparr>console := console s' @ [msg, errorMessage e]\<rparr>))"

text \<open>
  What one tick reads from the simulator and the flight-plan service.
\<close>

record SimVars =
  flightPlanService :: FlightPlanService
  FlightPlanIndex :: FlightPlanIndex
  ND_MODE :: "EfisSide \<Rightarrow> EfisNdMode"
  ND_RANGE :: "EfisSide \<Rightarrow> real"
  AIRSPEED_TRUE :: real
  GPS_GROUND_SPEED :: real
  GPS_GROUND_TRUE_TRACK :: real

text \<open>
  The collaborators the controller calls: each call may change any state it can reach
  and may throw. The bodies of updateEfisApproachMessage, updateMrpState and the write of
  updateEfisIdent only read plans and geometries and set SimVars; they are taken as
  calls of this kind too.
\<close>

record ('g, 'x) Collaborators =
  taskQueue_cancelAllInCategory_EfisVectors :: "('g, 'x) GuidanceController stmt"
  efisVectors_forceUpdate :: "('g, 'x) GuidanceController stmt"
  updateEfisApproachMessage :: "('g, 'x) GuidanceController stmt"
  verticalProfileComputationParametersObserver_update :: "('g, 'x) GuidanceController stmt"
  windProfileFactory_updateFmgcInputs :: "('g, 'x) GuidanceController stmt"
  atmosphericConditions_update :: "('g, 'x) GuidanceController stmt"
  GeometryFactory_updateFromFlightPlan :: "'g \<Rightarrow> BaseFlightPlan \<Rightarrow> bool \<Rightarrow> exn option \<times> 'g"
  GeometryFactory_createFromFlightPlan :: "BaseFlightPlan \<Rightarrow> bool \<Rightarrow> exn + 'g"
  lnavDriver_ppos :: "'x \<Rightarrow> Coordinates"
  recomputeWithParameters ::
    "'g \<Rightarrow> real \<Rightarrow> real \<Rightarrow> Coordinates \<Rightarrow> real \<Rightarrow> int \<Rightarrow> int \<Rightarrow> exn option \<times> 'g"
  vnavDriver_acceptMultipleLegGeometry :: "'g \<Rightarrow> ('g, 'x) GuidanceController stmt"
  pseudoWaypoints_acceptMultipleLegGeometry :: "'g \<Rightarrow> ('g, 'x) GuidanceController stmt"
  writeEfisIdent :: "'g \<Rightarrow> ('g, 'x) GuidanceController stmt"
  updateMrpState :: "('g, 'x) GuidanceController stmt"
  lnavDriver_update :: "real \<Rightarrow> ('g, 'x) GuidanceController stmt"
  vnavDriver_update :: "real \<Rightarrow> ('g, 'x) GuidanceController stmt"
  pseudoWaypoints_update :: "real \<Rightarrow> ('g, 'x) GuidanceController stmt"
  efisVectors_update :: "real \<Rightarrow> ('g, 'x) GuidanceController stmt"
  taskQueue_update :: "real \<Rightarrow> ('g, 'x) GuidanceController stmt"
  lnavDriver_readPpos :: "('g, 'x) GuidanceController stmt"
  lnavDriver_init :: "('g, 'x) GuidanceController stmt"
  vnavDriver_init :: "('g, 'x) GuidanceController stmt"
  pseudoWaypoints_init :: "('g, 'x) GuidanceController stmt"
  Coherent_on_IMM_EXIT :: "('g, 'x) GuidanceController stmt"

subsection \<open>The EfisState objects\<close>

definition deref :: "('g, 'x) GuidanceController \<Rightarrow> EfisStateRef \<Rightarrow> EfisState" where
  "deref s r = (case r of LeftEfisState \<Rightarrow> leftEfisState s | RightEfisState \<Rightarrow> rightEfisState s)"

definition assign ::
  "EfisStateRef \<Rightarrow> (EfisState \<Rightarrow> EfisState) \<Rightarrow> ('g, 'x) GuidanceController
   \<Rightarrow> ('g, 'x) GuidanceController" where
  "assign r f s =
     (case r of
        LeftEfisState \<Rightarrow> s\<lparr>leftEfisState := f (leftEfisState s)\<rparr>
      | RightEfisState \<Rightarrow> s\<lparr>rightEfisState := f (rightEfisState s)\<rparr>)"

text \<open>
  \<open>guidanceController.efisStateForSide[side].dataLimitReached = b\<close>, the write of the
  EFIS Symbols generator.
\<close>

definition setDataLimitReached ::
  "EfisSide \<Rightarrow> bool \<Rightarrow> ('g, 'x) GuidanceController \<Rightarrow> ('g, 'x) GuidanceController" where
  "setDataLimitReached side b s = assign (efisStateForSide s side) (\<lambda>st. st\<lparr>dataLimitReached := b\<rparr>) s"

subsection \<open>updateEfisState, updateMapPartlyDisplayed, updateEfisIdent\<close>

definition updateEfisState ::
  "SimVars \<Rightarrow> ('g, 'x) Collaborators \<Rightarrow> EfisSide \<Rightarrow> EfisStateRef
   \<Rightarrow> ('g, 'x) GuidanceController stmt" where
  "updateEfisState sim col side state =
     sequence
       [(\<lambda>s. if mode_nd (deref s state) \<noteq> ND_MODE sim side
                 \<or> range_nm (deref s state) \<noteq> ND_RANGE sim side
              then sequence
                     [taskQueue_cancelAllInCategory_EfisVectors col, efisVectors_forceUpdate col] s
              else (None, s)),
        (\<lambda>s. (None, assign state (\<lambda>st. st\<lparr>mode_nd := ND_MODE sim side\<rparr>) s)),
        (\<lambda>s. (None, assign state (\<lambda>st. st\<lparr>range_nm := ND_RANGE sim side\<rparr>) s)),
        updateEfisApproachMessage col]"

definition updateMapPartlyDisplayed :: "('g, 'x) GuidanceController stmt" where
  "updateMapPartlyDisplayed s =
     (let s1 =
            (if dataLimitReached (deref s (efisStateForSide s L))
                \<or> legsCulled (deref s (efisStateForSide s L))
             then s\<lparr>MAP_PARTLY_DISPLAYED := (MAP_PARTLY_DISPLAYED s)(L := True)\<rparr>
             else s\<lparr>MAP_PARTLY_DISPLAYED := (MAP_PARTLY_DISPLAYED s)(L := False)\<rparr>);
          s2 =
            (if dataLimitReached (deref s1 (efisStateForSide s1 R))
                \<or> legsCulled (deref s1 (efisStateForSide s1 R))
             then s1\<lparr>MAP_PARTLY_DISPLAYED := (MAP_PARTLY_DISPLAYED s1)(R := True)\<rparr>
             else s1\<lparr>MAP_PARTLY_DISPLAYED := (MAP_PARTLY_DISPLAYED s1)(R := False)\<rparr>)
      in (None, s2))"

text \<open>The key of a plan slot in the map of geometries.\<close>

definition geometryKey :: "nat \<Rightarrow> bool \<Rightarrow> nat" where
  "geometryKey flightPlanIndex alternate = (if alternate then 100 else 0) + flightPlanIndex"

definition getGeometryForFlightPlan ::
  "('g, 'x) GuidanceController \<Rightarrow> nat \<Rightarrow> bool \<Rightarrow> 'g option" where
  "getGeometryForFlightPlan s index alternate = flightPlanGeometries s (geometryKey index alternate)"

definition activeGeometry :: "SimVars \<Rightarrow> ('g, 'x) GuidanceController \<Rightarrow> 'g option" where
  "activeGeometry sim s = getGeometryForFlightPlan s (Active (FlightPlanIndex sim)) False"

text \<open>
  updateEfisIdent dereferences the active geometry: without one, reading \<open>legs\<close> of
  undefined throws.
\<close>

definition updateEfisIdent ::
  "SimVars \<Rightarrow> ('g, 'x) Collaborators \<Rightarrow> ('g, 'x) GuidanceController stmt" where
  "updateEfisIdent sim col s =
     (case activeGeometry sim s of
        None \<Rightarrow> (Some (Error ''TypeError: Cannot read properties of undefined''), s)
      | Some g \<Rightarrow> writeEfisIdent col g s)"

subsection \<open>tryUpdateFlightPlanGeometry and recomputeGeometry\<close>

definition recomputeGeometry ::
  "SimVars \<Rightarrow> ('g, 'x) Collaborators \<Rightarrow> 'x \<Rightarrow> 'g \<Rightarrow> BaseFlightPlan \<Rightarrow> exn option \<times> 'g" where
  "recomputeGeometry sim col x geometry plan =
     recomputeWithParameters col geometry (AIRSPEED_TRUE sim) (GPS_GROUND_SPEED sim)
       (lnavDriver_ppos col x) (GPS_GROUND_TRUE_TRACK sim) (activeLegIndex plan) (activeLegIndex plan)"

definition tryUpdateFlightPlanGeometry ::
  "SimVars \<Rightarrow> ('g, 'x) Collaborators \<Rightarrow> nat \<Rightarrow> bool \<Rightarrow> bool
   \<Rightarrow> ('g, 'x) GuidanceController stmt" where
  "tryUpdateFlightPlanGeometry sim col flightPlanIndex alternate force s =
     (let geometryPIndex = (if alternate then 100 else 0) + flightPlanIndex;
          lastVersion = lastFlightPlanVersions s flightPlanIndex
      in case flightPlanService sim flightPlanIndex of
           None \<Rightarrow> (None, s\<lparr>flightPlanGeometries := (flightPlanGeometries s)(geometryPIndex := None)\<rparr>)
         | Some fp \<Rightarrow>
            (let plan = (if alternate then alternateFlightPlan fp else BaseFlightPlan.truncate fp);
                 currentVersion = version plan
             in if \<not> force \<and> lastVersion = Some currentVersion then (None, s)
                else
                 (let s1 = s\<lparr>lastFlightPlanVersions :=
                               (lastFlightPlanVersions s)(flightPlanIndex \<mapsto> currentVersion)\<rparr>;
                      primary = (\<not> alternate \<and> flightPlanIndex < FirstSecondary (FlightPlanIndex sim))
                  in (case flightPlanGeometries s1 geometryPIndex of
                        Some geometry \<Rightarrow>
                          (case GeometryFactory_updateFromFlightPlan col geometry plan primary of
                             (Some e, g1) \<Rightarrow>
                               (Some e, s1\<lparr>flightPlanGeometries :=
                                             (flightPlanGeometries s1)(geometryPIndex \<mapsto> g1)\<rparr>)
                           | (None, g1) \<Rightarrow>
                               (case recomputeGeometry sim col (ext s1) g1 plan of
                                  (e, g2) \<Rightarrow>
                                    (e, s1\<lparr>flightPlanGeometries :=
                                             (flightPlanGeometries s1)(geometryPIndex \<mapsto> g2)\<rparr>)))
                      | None \<Rightarrow>
                          (case GeometryFactory_createFromFlightPlan col plan primary of
                             Inl e \<Rightarrow> (Some e, s1)
                           | Inr newGeometry \<Rightarrow>
                               (case recomputeGeometry sim col (ext s1) newGeometry plan of
                                  (Some e, g2) \<Rightarrow> (Some e, s1)
                                | (None, g2) \<Rightarrow>
                                    (None, s1\<lparr>flightPlanGeometries :=
                                                (flightPlanGeometries s1)(geometryPIndex \<mapsto> g2)\<rparr>)))))))"

subsection \<open>init and update\<close>

definition GEOMETRY_RECOMPUTATION_TIMER :: real where
  "GEOMETRY_RECOMPUTATION_TIMER = 5000"

definition GuidanceController_init :: "SimVars \<Rightarrow> ('g, 'x) Collaborators \<Rightarrow> ('g, 'x) GuidanceController stmt" where
  "GuidanceController_init sim col =
     sequence
       [(\<lambda>s. (None, s\<lparr>console := console s @ [''[FMGC/Guidance] GuidanceController initialized!'']\<rparr>)),
        lnavDriver_readPpos col,
        (\<lambda>s. (None, s\<lparr>leftEfisState :=
                          \<lparr>mode_nd = ARC, range_nm = 10, dataLimitReached = False, legsCulled = False\<rparr>\<rparr>)),
        (\<lambda>s. (None, s\<lparr>rightEfisState :=
                          \<lparr>mode_nd = ARC, range_nm = 10, dataLimitReached = False, legsCulled = False\<rparr>\<rparr>)),
        (\<lambda>s. (None, s\<lparr>efisStateForSide :=
                          (\<lambda>side. case side of L \<Rightarrow> LeftEfisState | R \<Rightarrow> RightEfisState)\<rparr>)),
        updateEfisState sim col L LeftEfisState,
        updateEfisState sim col R RightEfisState,
        (\<lambda>s. (None, s\<lparr>efisStateForSide := (efisStateForSide s)(L := LeftEfisState)\<rparr>)),
        (\<lambda>s. (None, s\<lparr>efisStateForSide := (efisStateForSide s)(R := LeftEfisState)\<rparr>)),
        lnavDriver_init col,
        vnavDriver_init col,
        pseudoWaypoints_init col,
        Coherent_on_IMM_EXIT col]"

definition GuidanceController_update ::
  "SimVars \<Rightarrow> ('g, 'x) Collaborators \<Rightarrow> real \<Rightarrow> ('g, 'x) GuidanceController stmt" where
  "GuidanceController_update sim col deltaTime =
     (let ix = FlightPlanIndex sim in
      sequence
       [(\<lambda>s. (None, s\<lparr>geometryRecomputationTimer := geometryRecomputationTimer s + deltaTime\<rparr>)),
        updateEfisState sim col L LeftEfisState,
        updateEfisState sim col R RightEfisState,
        tryCatch ''[FMS] Error during update of VNAV input parameters. See exception below.''
          (sequence
             [verticalProfileComputationParametersObserver_update col,
              windProfileFactory_updateFmgcInputs col,
              atmosphericConditions_update col]),
        tryCatch ''[FMS] Error during LNAV update. See exception below.''
          (sequence
             [tryUpdateFlightPlanGeometry sim col (Active ix) False False,
              tryUpdateFlightPlanGeometry sim col (Active ix) True False,
              tryUpdateFlightPlanGeometry sim col (Temporary ix) False False,
              tryUpdateFlightPlanGeometry sim col (FirstSecondary ix) False False,
              tryUpdateFlightPlanGeometry sim col (FirstSecondary ix) True False,
              (\<lambda>s. if geometryRecomputationTimer s > GEOMETRY_RECOMPUTATION_TIMER
                    then sequence
                           [(\<lambda>s. (None, s\<lparr>geometryRecomputationTimer := 0\<rparr>)),
                            tryUpdateFlightPlanGeometry sim col (Active ix) False True,
                            tryUpdateFlightPlanGeometry sim col (Active ix) True True,
                            tryUpdateFlightPlanGeometry sim col (Temporary ix) False True,
                            tryUpdateFlightPlanGeometry sim col (FirstSecondary ix) False True,
                            tryUpdateFlightPlanGeometry sim col (FirstSecondary ix) True True,
                            (\<lambda>s. case activeGeometry sim s of
                                    None \<Rightarrow> (None, s)
                                  | Some g \<Rightarrow>
                                      tryCatch ''[FMS] Error during active geometry profile recomputation. See exception below.''
                                        (sequence
                                           [vnavDriver_acceptMultipleLegGeometry col g,
                                            pseudoWaypoints_acceptMultipleLegGeometry col g]) s)] s
                    else (None, s)),
              updateEfisIdent sim col]),
        tryCatch ''[FMS] Error during map state computation. See exception below.''
          (updateMrpState col),
        tryCatch ''[FMS] Error during map partly displayed computation. See exception below.''
          updateMapPartlyDisplayed,
        tryCatch ''[FMS] Error during LNAV driver update. See exception below.''
          (lnavDriver_update col deltaTime),
        tryCatch ''[FMS] Error during VNAV driver update. See exception below.''
          (vnavDriver_update col deltaTime),
        tryCatch ''[FMS] Error during pseudo waypoints update. See exception below.''
          (pseudoWaypoints_update col deltaTime),
        tryCatch ''[FMS] Error during EFIS vectors update. See exception below.''
          (efisVectors_update col deltaTime),
        tryCatch ''[FMS] Error during task queue update. See exception below.''
          (taskQueue_update col deltaTime)])"

section \<open>EfisSymbols\<close>

subsection \<open>The edit-area test\<close>

text \<open>
  \<open>distanceTo\<close> and \<open>bearingTo\<close> of msfs-geo and \<open>diffAngle\<close> and \<open>clampAngle\<close>
  of MathUtils are library functions; the model takes them as given.
\<close>

record Geo =
  distanceTo :: "Coordinates \<Rightarrow> Coordinates \<Rightarrow> real"
  bearingTo :: "Coordinates \<Rightarrow> Coordinates \<Rightarrow> real"
  diffAngle :: "real \<Rightarrow> real \<Rightarrow> real"
  clampAngle :: "real \<Rightarrow> real"

text \<open>
  The closure withinEditArea of one side's pass, with what it captures as arguments:
  \<open>termination\<close> (the location of the plan centre, if it has one), the side's mode,
  the aircraft position and true heading, and the edit area of the side.
\<close>

definition withinEditArea ::
  "Geo \<Rightarrow> Coordinates option \<Rightarrow> EfisNdMode \<Rightarrow> Coordinates \<Rightarrow> real \<Rightarrow> real \<times> real \<times> real
   \<Rightarrow> Coordinates \<Rightarrow> bool" where
  "withinEditArea geo termination mode ppos trueHeading area ll =
     (case area of
        (editAhead, editBehind, editBeside) \<Rightarrow>
          (case termination of
             None \<Rightarrow> True
           | Some t \<Rightarrow>
               (let dist = distanceTo geo (if mode = PLAN then t else ppos) ll;
                    bearing0 = bearingTo geo (if mode = PLAN then t else ppos) ll;
                    bearing1 = (if mode \<noteq> PLAN then clampAngle geo (bearing0 - trueHeading)
                                else bearing0);
                    bearing = bearing1 * pi / 180;
                    dx = dist * sin bearing;
                    dy = dist * cos bearing
                in \<bar>dx\<bar> < editBeside \<and> dy > - editBehind \<and> dy < editAhead)))"

text \<open>
  The test as the specification words it: the candidate is converted to a bearing and a
  distance from the reference point (the aircraft position in ARC and ROSE modes, the
  plan centre in PLAN mode), the bearing is taken relative to the true heading outside
  PLAN mode, and the candidate is in when its along-track offset lies strictly between
  minus \<open>behind\<close> and \<open>ahead\<close> and its cross-track offset is smaller than
  \<open>beside\<close> in magnitude.
\<close>

definition spec_reference_point :: "EfisNdMode \<Rightarrow> Coordinates \<Rightarrow> Coordinates \<Rightarrow> Coordinates" where
  "spec_reference_point mode ppos planCentre = (case mode of PLAN \<Rightarrow> planCentre | _ \<Rightarrow> ppos)"

definition spec_relative_bearing ::
  "Geo \<Rightarrow> EfisNdMode \<Rightarrow> real \<Rightarrow> Coordinates \<Rightarrow> Coordinates \<Rightarrow> real" where
  "spec_relative_bearing geo mode trueHeading reference ll =
     (case mode of
        PLAN \<Rightarrow> bearingTo geo reference ll
      | _ \<Rightarrow> clampAngle geo (bearingTo geo reference ll - trueHeading))"

definition spec_along_track ::
  "Geo \<Rightarrow> EfisNdMode \<Rightarrow> real \<Rightarrow> Coordinates \<Rightarrow> Coordinates \<Rightarrow> real" where
  "spec_along_track geo mode trueHeading reference ll =
     distanceTo geo reference ll * cos (spec_relative_bearing geo mode trueHeading reference ll * pi / 180)"

definition spec_cross_track ::
  "Geo \<Rightarrow> EfisNdMode \<Rightarrow> real \<Rightarrow> Coordinates \<Rightarrow> Coordinates \<Rightarrow> real" where
  "spec_cross_track geo mode trueHeading reference ll =
     distanceTo geo reference ll * sin (spec_relative_bearing geo mode trueHeading reference ll * pi / 180)"

definition spec_within_edit_area ::
  "Geo \<Rightarrow> EfisNdMode \<Rightarrow> Coordinates \<Rightarrow> real \<Rightarrow> Coordinates \<Rightarrow> real \<times> real \<times> real
   \<Rightarrow> Coordinates \<Rightarrow> bool" where
  "spec_within_edit_area geo mode ppos trueHeading planCentre area ll =
     (let reference = spec_reference_point mode ppos planCentre;
          ahead = fst area; behind = fst (snd area); beside = snd (snd area)
      in spec_along_track geo mode trueHeading reference ll \<in> {- behind <..< ahead}
         \<and> \<bar>spec_cross_track geo mode trueHeading reference ll\<bar> < beside)"

subsection \<open>What one invocation of update reads\<close>

datatype VhfNavaidType = VorDme | Vortac | Vor | Dme | Tacan | OtherVhfNavaidType

datatype RunwaySurfaceType = Hard | OtherRunwaySurfaceType

record Facility =
  facDatabaseId :: string
  facIdent :: string
  facLocation :: Coordinates

record VhfNavaid = Facility +
  vhfType :: VhfNavaidType

record Airport = Facility +
  longestRunwayLength :: real
  longestRunwaySurfaceType :: RunwaySurfaceType

record PseudoWaypoint =
  pwpIdent :: string
  efisSymbolLla :: "Coordinates option"
  efisSymbolFlag :: "32 word"
  displayedOnNd :: bool

text \<open>The bits of the enumeration NdSymbolTypeFlags that update itself sets.\<close>

record NdSymbolTypeFlags =
  flagVor :: "32 word"
  flagVorDme :: "32 word"
  flagDme :: "32 word"
  flagNdb :: "32 word"
  flagAirport :: "32 word"
  flagWaypoint :: "32 word"
  flagEfisOption :: "32 word"
  flagTuned :: "32 word"

text \<open>The five calls of getFlightPlanSymbols in one side's pass.\<close>

datatype FlightPlanSymbolsCall =
  ForActive | ForActiveAlternate | ForTemporary | ForSecondary | ForSecondaryAlternate

text \<open>
  The inputs of one invocation: the SimVars, the versions and lists of the nearby
  facilities and of the navaid tuner, the pseudo waypoints of the guidance controller
  (an entry may be undefined), and, for each of its five calls on each side, the list
  that getFlightPlanSymbols returns.
\<close>

record EfisInputs = SimVars +
  PLANE_POSITION :: Coordinates
  PLANE_HEADING_DEGREES_TRUE :: real
  EFIS_OPTION :: "EfisSide \<Rightarrow> EfisOption"
  SELECTED_WAYPOINT_FP_INDEX :: nat
  SELECTED_WAYPOINT_INDEX :: int
  SELECTED_WAYPOINT_IN_ALTERNATE :: bool
  nearbyVersion :: int
  getVhfNavaids :: "VhfNavaid list"
  getNdbNavaids :: "Facility list"
  getAirports :: "Airport list"
  getWaypoints :: "Facility list"
  navaidVersion :: int
  tunedNdbs :: "Facility list"
  tunedVors :: "VhfNavaid list"
  vnavDriverVersion :: int
  currentPseudoWaypoints :: "PseudoWaypoint option list"
  getFlightPlanSymbols :: "FlightPlanSymbolsCall \<Rightarrow> EfisSide \<Rightarrow> NdSymbol list"
  flags :: NdSymbolTypeFlags
  geo :: Geo

text \<open>
  The generator: the guidance controller it holds, its change-detection fields, and
  \<open>syncer\<close>, the events sent so far, oldest first.
\<close>

record ('g, 'x) EfisSymbols =
  guidanceController :: "('g, 'x) GuidanceController"
  blockUpdate :: bool
  lastMode :: "EfisSide \<Rightarrow> EfisNdMode option"
  lastRange :: "EfisSide \<Rightarrow> real"
  lastEfisOption :: "EfisSide \<Rightarrow> EfisOption"
  lastPlanCentre :: "Coordinates option"
  lastPpos :: Coordinates
  lastTrueHeading :: real
  lastNearbyFacilitiesVersion :: "int option"
  lastFpVersions :: "nat \<rightharpoonup> int"
  lastNavaidVersion :: int
  lastVnavDriverVersion :: int
  syncer :: "(EfisSide \<times> NdSymbol list) list"

text \<open>The locals of update that the loop over the sides reads.\<close>

record Locals =
  ppos :: Coordinates
  trueHeading :: real
  pposChanged :: bool
  trueHeadingChanged :: bool
  nearbyFacilitiesChanged :: bool
  fpChanged :: bool
  planCentre :: "FlightPlanElement option"
  terminationLocation :: "Coordinates option"
  planCentreChanged :: bool
  navaidsChanged :: bool
  vnavPredictionsChanged :: bool

subsection \<open>Building the candidates\<close>

text \<open>An object literal \<open>{ databaseId, ident, location, type }\<close>.\<close>

definition symbolOf :: "string \<Rightarrow> string \<Rightarrow> Coordinates option \<Rightarrow> 32 word \<Rightarrow> NdSymbol" where
  "symbolOf k i loc t =
     \<lparr>databaseId = k, ident = i, location = loc, type = t, constraints = None,
      direction = None, length_nm = None, radials = None, radii = None\<rparr>"

definition vorDmeTypeFlag :: "NdSymbolTypeFlags \<Rightarrow> VhfNavaidType \<Rightarrow> 32 word" where
  "vorDmeTypeFlag fl t =
     (case t of
        VorDme \<Rightarrow> flagVorDme fl
      | Vortac \<Rightarrow> flagVorDme fl
      | Vor \<Rightarrow> flagVor fl
      | Dme \<Rightarrow> flagDme fl
      | Tacan \<Rightarrow> flagDme fl
      | _ \<Rightarrow> 0)"

definition hasSuitableRunway :: "Airport \<Rightarrow> bool" where
  "hasSuitableRunway airport =
     (longestRunwayLength airport \<ge> 1500 \<and> longestRunwaySurfaceType airport = Hard)"

text \<open>
  The symbols that the overlay selected by the side's option upserts, in the order of
  the loop that upserts them.
\<close>

definition nearbySymbols ::
  "'a EfisInputs_scheme \<Rightarrow> (Coordinates \<Rightarrow> bool) \<Rightarrow> EfisOption \<Rightarrow> NdSymbol list" where
  "nearbySymbols inp inArea efisOption =
     (if efisOption = VorDmes then
        map (\<lambda>vor. symbolOf (facDatabaseId vor) (facIdent vor) (Some (facLocation vor))
                     (vorDmeTypeFlag (flags inp) (vhfType vor) OR flagEfisOption (flags inp)))
          (filter (\<lambda>vor. vorDmeTypeFlag (flags inp) (vhfType vor) \<noteq> 0 \<and> inArea (facLocation vor))
             (getVhfNavaids inp))
      else if efisOption = Ndbs then
        map (\<lambda>ndb. symbolOf (facDatabaseId ndb) (facIdent ndb) (Some (facLocation ndb))
                     (flagNdb (flags inp) OR flagEfisOption (flags inp)))
          (filter (\<lambda>ndb. inArea (facLocation ndb)) (getNdbNavaids inp))
      else if efisOption = Airports then
        map (\<lambda>ap. symbolOf (facDatabaseId ap) (facIdent ap) (Some (facLocation ap))
                    (flagAirport (flags inp) OR flagEfisOption (flags inp)))
          (filter (\<lambda>ap. inArea (facLocation ap) \<and> hasSuitableRunway ap) (getAirports inp))
      else if efisOption = Waypoints then
        map (\<lambda>wp. symbolOf (facDatabaseId wp) (facIdent wp) (Some (facLocation wp))
                    (flagWaypoint (flags inp) OR flagEfisOption (flags inp)))
          (filter (\<lambda>wp. inArea (facLocation wp)) (getWaypoints inp))
      else [])"

definition pseudoWaypointSymbols :: "PseudoWaypoint option list \<Rightarrow> NdSymbol list" where
  "pseudoWaypointSymbols pwps =
     map (\<lambda>pwp. symbolOf (''W      '' @ pwpIdent pwp) (pwpIdent pwp) (efisSymbolLla pwp)
                   (efisSymbolFlag pwp))
       (filter displayedOnNd (List.map_filter id pwps))"

subsection \<open>The symbol budget\<close>

definition wordsPerSymbol :: real where
  "wordsPerSymbol = 6"

definition maxSymbols :: real where
  "maxSymbols = 640 / wordsPerSymbol"

text \<open>
  \<open>splice(0, deleteCount)\<close> reads its count through ToIntegerOrInfinity, which drops
  the fraction, and clamps it between 0 and the length; the list keeps what follows the
  deleted prefix.
\<close>

definition toIntegerOrInfinity :: "real \<Rightarrow> int" where
  "toIntegerOrInfinity x = (if x < 0 then - \<lfloor>- x\<rfloor> else \<lfloor>x\<rfloor>)"

definition splice0 :: "'a list \<Rightarrow> real \<Rightarrow> 'a list" where
  "splice0 xs deleteCount =
     drop (nat (min (max (toIntegerOrInfinity deleteCount) 0) (int (length xs)))) xs"

text \<open>The list that is sent and the value written to dataLimitReached.\<close>

definition truncateSymbols :: "NdSymbol list \<Rightarrow> NdSymbol list \<times> bool" where
  "truncateSymbols symbols =
     (if real (length symbols) > maxSymbols
      then (splice0 symbols (real (length symbols) - maxSymbols), True)
      else (symbols, False))"

subsection \<open>update\<close>

definition sendEvent ::
  "EfisSide \<Rightarrow> NdSymbol list \<Rightarrow> ('g, 'x) EfisSymbols \<Rightarrow> ('g, 'x) EfisSymbols" where
  "sendEvent side symbols this = this\<lparr>syncer := syncer this @ [(side, symbols)]\<rparr>"

text \<open>One turn of \<open>for (const side of sides)\<close> ends in \<open>continue\<close> or in \<open>return\<close>.\<close>

datatype 's turn = Continue 's | Return 's

fun forOf :: "('a \<Rightarrow> 's \<Rightarrow> 's turn) \<Rightarrow> 'a list \<Rightarrow> 's \<Rightarrow> 's" where
  "forOf body [] s = s"
| "forOf body (x # xs) s =
     (case body x s of Continue s' \<Rightarrow> forOf body xs s' | Return s' \<Rightarrow> s')"

definition sides :: "EfisSide list" where
  "sides = [L, R]"

definition has :: "'a EfisInputs_scheme \<Rightarrow> nat \<Rightarrow> bool" where
  "has inp i = (flightPlanService inp i \<noteq> None)"

text \<open>
  The symbols one side's pass upserts after the overlay, in order: the five
  flight-plan calls, each under its guard, the displayed pseudo waypoints, the tuned
  NDBs and the tuned VORs.
\<close>

definition flightPlanCandidates :: "'a EfisInputs_scheme \<Rightarrow> EfisSide \<Rightarrow> NdSymbol list" where
  "flightPlanCandidates inp side =
     (case flightPlanService inp (Active (FlightPlanIndex inp)) of
        None \<Rightarrow> []
      | Some active \<Rightarrow>
          getFlightPlanSymbols inp ForActive side
          @ (if legCount (alternateFlightPlan active) > 0
             then getFlightPlanSymbols inp ForActiveAlternate side else []))
     @ (if has inp (Temporary (FlightPlanIndex inp))
        then getFlightPlanSymbols inp ForTemporary side else [])
     @ (case flightPlanService inp (FirstSecondary (FlightPlanIndex inp)) of
          None \<Rightarrow> []
        | Some secondary \<Rightarrow>
            getFlightPlanSymbols inp ForSecondary side
            @ (if legCount (alternateFlightPlan secondary) > 0
               then getFlightPlanSymbols inp ForSecondaryAlternate side else []))"

definition tunedSymbols :: "'a EfisInputs_scheme \<Rightarrow> NdSymbol list" where
  "tunedSymbols inp =
     map (\<lambda>ndb. symbolOf (facDatabaseId ndb) (facIdent ndb) (Some (facLocation ndb))
                  (flagNdb (flags inp) OR flagTuned (flags inp)))
       (tunedNdbs inp)
     @ map (\<lambda>vor. symbolOf (facDatabaseId vor) (facIdent vor) (Some (facLocation vor))
                    (vorDmeTypeFlag (flags inp) (vhfType vor) OR flagTuned (flags inp)))
         (tunedVors inp)"

text \<open>The body of the loop over the sides, lines 166 to 460.\<close>

definition sidePass ::
  "'a EfisInputs_scheme \<Rightarrow> Locals \<Rightarrow> EfisSide \<Rightarrow> ('g, 'x) EfisSymbols
   \<Rightarrow> ('g, 'x) EfisSymbols turn" where
  "sidePass inp loc side this =
     (let rng = ND_RANGE inp side;
          mode = ND_MODE inp side;
          efisOption = EFIS_OPTION inp side;
          rangeChange = (lastRange this side \<noteq> rng);
          modeChange = (lastMode this side \<noteq> Some mode);
          efisOptionChange = (lastEfisOption this side \<noteq> efisOption);
          this1 = this\<lparr>lastRange := (lastRange this)(side := rng),
                       lastMode := (lastMode this)(side := Some mode),
                       lastEfisOption := (lastEfisOption this)(side := efisOption)\<rparr>;
          nearbyOverlayChanged =
            (efisOption \<noteq> Constraints \<and> efisOption \<noteq> None_option \<and> nearbyFacilitiesChanged loc)
      in if \<not> pposChanged loc \<and> \<not> trueHeadingChanged loc \<and> \<not> rangeChange \<and> \<not> modeChange
            \<and> \<not> efisOptionChange \<and> \<not> nearbyOverlayChanged \<and> \<not> fpChanged loc
            \<and> \<not> planCentreChanged loc \<and> \<not> navaidsChanged loc \<and> \<not> vnavPredictionsChanged loc
         then Continue this1
         else if mode = PLAN \<and> planCentre loc = None
         then Return (sendEvent side [] this1)
         else
          (let area = calculateEditArea rng mode;
               inArea = withinEditArea (geo inp) (terminationLocation loc) mode (ppos loc)
                          (trueHeading loc) area;
               symbols1 = upsertAll [] (nearbySymbols inp inArea efisOption);
               symbols2 = upsertAll symbols1 (flightPlanCandidates inp side);
               symbols3 = upsertAll symbols2 (pseudoWaypointSymbols (currentPseudoWaypoints inp));
               symbols4 = upsertAll symbols3 (tunedSymbols inp);
               (symbols, limit) = truncateSymbols symbols4;
               this2 = this1\<lparr>guidanceController :=
                               setDataLimitReached side limit (guidanceController this1)\<rparr>;
               this3 = sendEvent side symbols this2
           in Continue (this3\<lparr>blockUpdate := True\<rparr>)))"

text \<open>
  update, from the test of blockUpdate on. The timer that clears blockUpdate after
  200 ms fires outside the invocation.
\<close>

definition EfisSymbols_update ::
  "'a EfisInputs_scheme \<Rightarrow> ('g, 'x) EfisSymbols stmt" where
  "EfisSymbols_update inp this =
     (if blockUpdate this then (None, this)
      else
       (let ix = FlightPlanIndex inp;
            pposChanged = (distanceTo (geo inp) (lastPpos this) (PLANE_POSITION inp) > 2);
            this1 = (if pposChanged then this\<lparr>lastPpos := PLANE_POSITION inp\<rparr> else this);
            trueHeadingChanged =
              (diffAngle (geo inp) (PLANE_HEADING_DEGREES_TRUE inp) (lastTrueHeading this1) > 2);
            this2 = (if trueHeadingChanged
                     then this1\<lparr>lastTrueHeading := PLANE_HEADING_DEGREES_TRUE inp\<rparr> else this1);
            nearbyFacilitiesChanged = (Some (nearbyVersion inp) \<noteq> lastNearbyFacilitiesVersion this2);
            this3 = this2\<lparr>lastNearbyFacilitiesVersion := Some (nearbyVersion inp)\<rparr>;
            versionChanged =
              (\<lambda>i. case flightPlanService inp i of
                      None \<Rightarrow> False
                    | Some fp \<Rightarrow> lastFpVersions this3 i \<noteq> Some (version fp));
            fpChanged = (versionChanged (Active ix) \<or> versionChanged (Temporary ix)
                         \<or> versionChanged (FirstSecondary ix));
            remember =
              (\<lambda>i t. case flightPlanService inp i of
                        None \<Rightarrow> t
                      | Some fp \<Rightarrow> t\<lparr>lastFpVersions := (lastFpVersions t)(i \<mapsto> version fp)\<rparr>);
            this4 = remember (FirstSecondary ix) (remember (Temporary ix) (remember (Active ix) this3))
        in case flightPlanService inp (SELECTED_WAYPOINT_FP_INDEX inp) of
             None \<Rightarrow> (None, this4)
           | Some fp \<Rightarrow>
              (let plan = (if SELECTED_WAYPOINT_IN_ALTERNATE inp then alternateFlightPlan fp
                           else BaseFlightPlan.truncate fp);
                   planCentreIndex = SELECTED_WAYPOINT_INDEX inp
               in if \<not> hasElement plan planCentreIndex then (None, this4)
                  else
                   (let planCentre0 = elementAt plan planCentreIndex;
                        planCentre =
                          (if planCentre0 = Some Discontinuity
                           then elementAt plan (max 0 (planCentreIndex - 1)) else planCentre0)
                    in if planCentre = Some Discontinuity then (Some (Error ''bruh''), this4)
                       else
                        (let termination =
                               (case planCentre of Some (Leg ll) \<Rightarrow> ll | _ \<Rightarrow> None);
                             this5 = (case termination of
                                        Some t \<Rightarrow> this4\<lparr>lastPlanCentre := Some t\<rparr>
                                      | None \<Rightarrow> this4);
                             planCentreChanged =
                               (map_option lat termination \<noteq> map_option lat (lastPlanCentre this5)
                                \<or> map_option long termination \<noteq> map_option long (lastPlanCentre this5));
                             navaidsChanged = (lastNavaidVersion this5 \<noteq> navaidVersion inp);
                             this6 = this5\<lparr>lastNavaidVersion := navaidVersion inp\<rparr>;
                             vnavPredictionsChanged =
                               (lastVnavDriverVersion this6 \<noteq> vnavDriverVersion inp);
                             this7 = this6\<lparr>lastVnavDriverVersion := vnavDriverVersion inp\<rparr>;
                             loc = \<lparr>ppos = PLANE_POSITION inp,
                                    trueHeading = PLANE_HEADING_DEGREES_TRUE inp,
                                    pposChanged = pposChanged,
                                    trueHeadingChanged = trueHeadingChanged,
                                    nearbyFacilitiesChanged = nearbyFacilitiesChanged,
                                    fpChanged = fpChanged,
                                    planCentre = planCentre,
                                    terminationLocation = termination,
                                    planCentreChanged = planCentreChanged,
                                    navaidsChanged = navaidsChanged,
                                    vnavPredictionsChanged = vnavPredictionsChanged\<rparr>
                         in (None, forOf (sidePass inp loc) sides this7))))))"

section \<open>Sample inputs\<close>

text \<open>
  Concrete controllers, collaborators and inputs at which the definitions above are
  evaluated. Geometries are numbers, and the state of the collaborators is the list of
  the calls they received.
\<close>

subsection \<open>Symbols\<close>

definition ringSymbol :: NdSymbol where
  "ringSymbol = (symbolOf ''WFIX'' ''FIX'' None 1)\<lparr>radials := Some [90]\<rparr>"

definition plainSymbol :: "32 word \<Rightarrow> NdSymbol" where
  "plainSymbol t = symbolOf ''WABC'' ''ABC'' None t"

subsection \<open>A guidance controller and its collaborators\<close>

text \<open>A collaborator call that records itself and completes, and one that throws.\<close>

definition called :: "string \<Rightarrow> ('g, string list) GuidanceController stmt" where
  "called name s = (None, s\<lparr>ext := ext s @ [name]\<rparr>)"

definition throwing :: "string \<Rightarrow> ('g, 'x) GuidanceController stmt" where
  "throwing name s = (Some (Error name), s)"

definition quiet :: "(nat, string list) Collaborators" where
  "quiet =
     \<lparr>taskQueue_cancelAllInCategory_EfisVectors = called ''taskQueue.cancelAllInCategory'',
      efisVectors_forceUpdate = called ''efisVectors.forceUpdate'',
      updateEfisApproachMessage = called ''updateEfisApproachMessage'',
      verticalProfileComputationParametersObserver_update = called ''observer.update'',
      windProfileFactory_updateFmgcInputs = called ''windProfileFactory.updateFmgcInputs'',
      atmosphericConditions_update = called ''atmosphericConditions.update'',
      GeometryFactory_updateFromFlightPlan = (\<lambda>g plan primary. (None, g)),
      GeometryFactory_createFromFlightPlan = (\<lambda>plan primary. Inr 0),
      lnavDriver_ppos = (\<lambda>x. \<lparr>lat = 0, long = 0\<rparr>),
      recomputeWithParameters = (\<lambda>g tas gs p track i j. (None, Suc g)),
      vnavDriver_acceptMultipleLegGeometry = (\<lambda>g. called ''vnavDriver.acceptMultipleLegGeometry''),
      pseudoWaypoints_acceptMultipleLegGeometry =
        (\<lambda>g. called ''pseudoWaypoints.acceptMultipleLegGeometry''),
      writeEfisIdent = (\<lambda>g. called ''updateEfisIdent''),
      updateMrpState = called ''updateMrpState'',
      lnavDriver_update = (\<lambda>dt. called ''lnavDriver.update''),
      vnavDriver_update = (\<lambda>dt. called ''vnavDriver.update''),
      pseudoWaypoints_update = (\<lambda>dt. called ''pseudoWaypoints.update''),
      efisVectors_update = (\<lambda>dt. called ''efisVectors.update''),
      taskQueue_update = (\<lambda>dt. called ''taskQueue.update''),
      lnavDriver_readPpos = called ''lnavDriver.ppos'',
      lnavDriver_init = called ''lnavDriver.init'',
      vnavDriver_init = called ''vnavDriver.init'',
      pseudoWaypoints_init = called ''pseudoWaypoints.init'',
      Coherent_on_IMM_EXIT = called ''Coherent.on''\<rparr>"

definition noLegs :: BaseFlightPlan where
  "noLegs = \<lparr>version = 7, activeLegIndex = 0, legCount = 0,
             hasElement = (\<lambda>i. False), elementAt = (\<lambda>i. None)\<rparr>"

definition somePlan :: FlightPlan where
  "somePlan = \<lparr>version = 3, activeLegIndex = 0, legCount = 0,
               hasElement = (\<lambda>i. i = 0), elementAt = (\<lambda>i. None), alternateFlightPlan = noLegs\<rparr>"

definition someSimVars :: SimVars where
  "someSimVars =
     \<lparr>flightPlanService = (\<lambda>i. if i = 0 then Some somePlan else None),
      FlightPlanIndex = \<lparr>Active = 0, Temporary = 1, FirstSecondary = 2\<rparr>,
      ND_MODE = (\<lambda>side. ARC),
      ND_RANGE = (\<lambda>side. 10),
      AIRSPEED_TRUE = 250,
      GPS_GROUND_SPEED = 250,
      GPS_GROUND_TRUE_TRACK = 0\<rparr>"

definition planModeSelected :: SimVars where
  "planModeSelected = someSimVars\<lparr>ND_MODE := (\<lambda>side. PLAN)\<rparr>"

text \<open>
  A controller before init has run: the timer and the two maps as their initialisers
  leave them, the fields that init assigns at values that init overwrites.
\<close>

definition constructed :: "(nat, string list) GuidanceController" where
  "constructed =
     \<lparr>leftEfisState = \<lparr>mode_nd = ROSE_NAV, range_nm = 20, dataLimitReached = False, legsCulled = False\<rparr>,
      rightEfisState = \<lparr>mode_nd = ROSE_NAV, range_nm = 20, dataLimitReached = False, legsCulled = False\<rparr>,
      efisStateForSide = (\<lambda>side. case side of L \<Rightarrow> LeftEfisState | R \<Rightarrow> RightEfisState),
      geometryRecomputationTimer = GEOMETRY_RECOMPUTATION_TIMER + 1,
      lastFlightPlanVersions = Map.empty,
      flightPlanGeometries = Map.empty,
      MAP_PARTLY_DISPLAYED = (\<lambda>side. False),
      console = [],
      ext = []\<rparr>"

definition initialised :: "(nat, string list) GuidanceController" where
  "initialised = snd (GuidanceController_init someSimVars quiet constructed)"

definition tracked :: "(nat, string list) GuidanceController" where
  "tracked = constructed\<lparr>lastFlightPlanVersions := [0 \<mapsto> 3], flightPlanGeometries := [0 \<mapsto> 5, 1 \<mapsto> 6]\<rparr>"

subsection \<open>A chart along one meridian\<close>

text \<open>
  Positions on the meridian of longitude 0, sixty nautical miles to the degree of
  latitude, the bearing between two of them north or south.
\<close>

definition meridian :: Geo where
  "meridian =
     \<lparr>distanceTo = (\<lambda>a b. 60 * \<bar>lat b - lat a\<bar>),
      bearingTo = (\<lambda>a b. if lat a \<le> lat b then 0 else 180),
      diffAngle = (\<lambda>a b. \<bar>a - b\<bar>),
      clampAngle = (\<lambda>a. a)\<rparr>"

definition northOf :: "real \<Rightarrow> Coordinates" where
  "northOf nm = \<lparr>lat = nm / 60, long = 0\<rparr>"

subsection \<open>Inputs of the EFIS Symbols generator\<close>

definition ndbNumber :: "nat \<Rightarrow> Facility" where
  "ndbNumber n = \<lparr>facDatabaseId = replicate (Suc n) CHR ''N'', facIdent = ''NDB'',
                  facLocation = northOf (real n)\<rparr>"

definition someFlags :: NdSymbolTypeFlags where
  "someFlags = \<lparr>flagVor = 1, flagVorDme = 2, flagDme = 512, flagNdb = 4, flagAirport = 16,
                flagWaypoint = 8, flagEfisOption = 256, flagTuned = 64\<rparr>"

definition centredPlan :: FlightPlan where
  "centredPlan = \<lparr>version = 3, activeLegIndex = 0, legCount = 1,
                  hasElement = (\<lambda>i. i = 0),
                  elementAt = (\<lambda>i. if i = 0 then Some (Leg (Some (northOf 5))) else None),
                  alternateFlightPlan = noLegs\<rparr>"

definition someInputs :: EfisInputs where
  "someInputs =
     \<lparr>flightPlanService = (\<lambda>i. if i = 0 then Some centredPlan else None),
      FlightPlanIndex = \<lparr>Active = 0, Temporary = 1, FirstSecondary = 2\<rparr>,
      ND_MODE = (\<lambda>side. ARC),
      ND_RANGE = (\<lambda>side. 10),
      AIRSPEED_TRUE = 250,
      GPS_GROUND_SPEED = 250,
      GPS_GROUND_TRUE_TRACK = 0,
      PLANE_POSITION = northOf 0,
      PLANE_HEADING_DEGREES_TRUE = 0,
      EFIS_OPTION = (\<lambda>side. None_option),
      SELECTED_WAYPOINT_FP_INDEX = 0,
      SELECTED_WAYPOINT_INDEX = 0,
      SELECTED_WAYPOINT_IN_ALTERNATE = False,
      nearbyVersion = 1,
      getVhfNavaids = [],
      getNdbNavaids = [],
      getAirports = [],
      getWaypoints = [],
      navaidVersion = 1,
      tunedNdbs = [ndbNumber 0],
      tunedVors = [],
      vnavDriverVersion = 1,
      currentPseudoWaypoints = [],
      getFlightPlanSymbols = (\<lambda>call side. []),
      flags = someFlags,
      geo = meridian\<rparr>"

text \<open>One hundred and seven tuned NDBs, each with an identifier of its own.\<close>

definition crowdedInputs :: EfisInputs where
  "crowdedInputs = someInputs\<lparr>tunedNdbs := map ndbNumber [0..<107]\<rparr>"

definition crowd :: "NdSymbol list" where
  "crowd = tunedSymbols crowdedInputs"

text \<open>
  The selected element exists, but \<open>elementAt\<close> yields no plan centre; the left
  side is in PLAN mode, the right side in ARC mode, and the other way round.
\<close>

definition lostCentre :: EfisInputs where
  "lostCentre =
     someInputs\<lparr>flightPlanService := (\<lambda>i. if i = 0 then Some somePlan else None),
                 ND_MODE := (\<lambda>side. case side of L \<Rightarrow> PLAN | R \<Rightarrow> ARC)\<rparr>"

definition lostCentreMirrored :: EfisInputs where
  "lostCentreMirrored = lostCentre\<lparr>ND_MODE := (\<lambda>side. case side of L \<Rightarrow> ARC | R \<Rightarrow> PLAN)\<rparr>"

text \<open>The selected flight-plan index holds no plan.\<close>

definition noPlanSelected :: EfisInputs where
  "noPlanSelected = lostCentre\<lparr>SELECTED_WAYPOINT_FP_INDEX := 1\<rparr>"

text \<open>The generator with the initial values of its fields.\<close>

definition freshGenerator :: "(nat, string list) EfisSymbols" where
  "freshGenerator =
     \<lparr>guidanceController = initialised,
      blockUpdate = False,
      lastMode = (\<lambda>side. None),
      lastRange = (\<lambda>side. 0),
      lastEfisOption = (\<lambda>side. None_option),
      lastPlanCentre = None,
      lastPpos = \<lparr>lat = 0, long = 0\<rparr>,
      lastTrueHeading = - 1,
      lastNearbyFacilitiesVersion = None,
      lastFpVersions = Map.empty,
      lastNavaidVersion = - 1,
      lastVnavDriverVersion = - 1,
      syncer = []\<rparr>"

section \<open>Edit area: the code against the table\<close>

text \<open>
  Claim C7. For each of the modes ARC, ROSE-NAV and PLAN and every range,
  calculateEditArea returns the entry of the specification's lookup table for that mode
  and the band of the range; at range 10 in ARC mode this is (10.5, 3.5, 8.3).
\<close>

theorem calculateEditArea_matches_table:
  "calculateEditArea rng (mode_of_row m) = spec_edit_area rng m
   \<and> calculateEditArea 10 ARC = (10.5, 3.5, 8.3)"
  by (cases m) (simp_all add: calculateEditArea_def spec_edit_area_def range_band_def)

section \<open>The working symbol list: one entry per identifier\<close>


lemma findIndex_None: "findIndex P xs = None \<longleftrightarrow> (\<forall>x \<in> set xs. \<not> P x)"
  by (induction xs) auto

lemma findIndex_Some:
  "findIndex P xs = Some i \<Longrightarrow> i < length xs \<and> P (xs ! i) \<and> (\<forall>j<i. \<not> P (xs ! j))"
proof (induction xs arbitrary: i)
  case Nil
  then show ?case by simp
next
  case (Cons x xs)
  then show ?case by (auto split: if_splits simp: nth_Cons split: nat.splits)
qed

lemma findIndex_remove1:
  "findIndex (\<lambda>s. f s = k) xs = Some i \<Longrightarrow>
     map f (take i xs @ drop (Suc i) xs) = remove1 k (map f xs)"
proof (induction xs arbitrary: i)
  case Nil
  then show ?case by simp
next
  case (Cons x xs)
  then show ?case by (auto split: if_splits)
qed

lemma findIndex_snoc:
  "\<forall>x \<in> set xs. \<not> P x \<Longrightarrow> P y \<Longrightarrow> findIndex P (xs @ [y]) = Some (length xs)"
  by (induction xs) auto

lemma databaseId_mergeSymbol [simp]: "databaseId (mergeSymbol s old) = databaseId s"
  by (simp add: mergeSymbol_def)

lemma ids_upsertSymbol:
  "map databaseId (upsertSymbol symbols s)
     = remove1 (databaseId s) (map databaseId symbols) @ [databaseId s]"
proof (cases "findIndex (\<lambda>x. databaseId x = databaseId s) symbols")
  case None
  then have "databaseId s \<notin> set (map databaseId symbols)"
    by (auto simp: findIndex_None)
  then show ?thesis using None by (simp add: upsertSymbol_def remove1_idem)
next
  case (Some i)
  then show ?thesis
    using findIndex_remove1 [OF Some] by (simp add: upsertSymbol_def)
qed

lemma distinct_upsertSymbol:
  "distinct (map databaseId symbols) \<Longrightarrow> distinct (map databaseId (upsertSymbol symbols s))"
  by (simp add: ids_upsertSymbol)

lemma distinct_upsertAll:
  "distinct (map databaseId symbols) \<Longrightarrow> distinct (map databaseId (upsertAll symbols xs))"
  unfolding upsertAll_def
  by (induction xs arbitrary: symbols) (simp_all add: distinct_upsertSymbol)



lemma upsertSymbol_absent:
  "\<forall>x \<in> set symbols. databaseId x \<noteq> databaseId s \<Longrightarrow> upsertSymbol symbols s = symbols @ [s]"
  by (simp add: upsertSymbol_def findIndex_None [THEN iffD2])

lemma upsertSymbol_last_entry:
  assumes "\<forall>x \<in> set rest. databaseId x \<noteq> databaseId s" and "databaseId m = databaseId s"
  shows "upsertSymbol (rest @ [m]) s = rest @ [mergeSymbol s m]"
proof -
  have "findIndex (\<lambda>x. databaseId x = databaseId s) (rest @ [m]) = Some (length rest)"
    using assms by (intro findIndex_snoc) auto
  then show ?thesis by (simp add: upsertSymbol_def)
qed

lemma upsertSymbol_shape:
  assumes "distinct (map databaseId symbols)"
  obtains rest m where "upsertSymbol symbols s = rest @ [m]"
    and "\<forall>x \<in> set rest. databaseId x \<noteq> databaseId s"
    and "set rest \<subseteq> set symbols"
    and "m = s \<and> (\<forall>x \<in> set symbols. databaseId x \<noteq> databaseId s) \<and> rest = symbols
         \<or> (\<exists>old \<in> set symbols. databaseId old = databaseId s \<and> m = mergeSymbol s old)"
proof (cases "findIndex (\<lambda>x. databaseId x = databaseId s) symbols")
  case None
  then have "\<forall>x \<in> set symbols. databaseId x \<noteq> databaseId s"
    by (simp add: findIndex_None)
  then show ?thesis
    using that [of symbols s] by (simp add: upsertSymbol_absent)
next
  case (Some i)
  let ?rest = "take i symbols @ drop (Suc i) symbols"
  from findIndex_Some [OF Some] have i: "i < length symbols" "databaseId (symbols ! i) = databaseId s"
    by simp_all
  have "map databaseId ?rest = remove1 (databaseId s) (map databaseId symbols)"
    by (rule findIndex_remove1 [OF Some])
  with assms have "databaseId s \<notin> set (map databaseId ?rest)"
    by simp
  then have 1: "\<forall>x \<in> set ?rest. databaseId x \<noteq> databaseId s"
    by (metis image_eqI set_map)
  have 2: "set ?rest \<subseteq> set symbols"
    using set_take_subset [of i symbols] set_drop_subset [of "Suc i" symbols] by auto
  have 3: "symbols ! i \<in> set symbols"
    using i by simp
  have 4: "m = s \<and> (\<forall>x \<in> set symbols. databaseId x \<noteq> databaseId s) \<and> ?rest = symbols
         \<or> (\<exists>old \<in> set symbols. databaseId old = databaseId s \<and> m = mergeSymbol s old)"
    if "m = mergeSymbol s (symbols ! i)" for m
    using that 3 i by blast
  have 5: "upsertSymbol symbols s = ?rest @ [mergeSymbol s (symbols ! i)]"
    using Some by (simp add: upsertSymbol_def)
  show ?thesis
    by (rule that [OF 5 1 2 4]) simp
qed

lemma nullish_idem: "nullish a (nullish a b) = nullish a b" "nullish a a = a"
  by (simp_all add: nullish_def split: option.splits)

lemma mergeSymbol_again:
  "mergeSymbol s (mergeSymbol s old) =
     (mergeSymbol s old)\<lparr>radials := mergeRings (radials s) (radials (mergeSymbol s old)),
                           radii := mergeRings (radii s) (radii (mergeSymbol s old))\<rparr>"
  by (simp add: mergeSymbol_def nullish_idem)

lemma mergeSymbol_self:
  "mergeSymbol s s =
     s\<lparr>radials := mergeRings (radials s) (radials s), radii := mergeRings (radii s) (radii s)\<rparr>"
  by (simp add: mergeSymbol_def nullish_idem)

lemma mergeRings_no_rings:
  "new = None \<or> new = Some [] \<Longrightarrow> mergeRings new (mergeRings new old) = mergeRings new old"
  "new = None \<or> new = Some [] \<Longrightarrow> mergeRings new new = new"
  by (auto simp: mergeRings_def split: option.splits)

lemma upsertSymbol_twice_shape:
  assumes "distinct (map databaseId symbols)"
  shows "upsertSymbol (upsertSymbol symbols s) s =
           butlast (upsertSymbol symbols s)
           @ [(last (upsertSymbol symbols s))
                \<lparr>radials := mergeRings (radials s) (radials (last (upsertSymbol symbols s))),
                 radii := mergeRings (radii s) (radii (last (upsertSymbol symbols s)))\<rparr>]"
proof -
  obtain rest m where U: "upsertSymbol symbols s = rest @ [m]"
    and rest: "\<forall>x \<in> set rest. databaseId x \<noteq> databaseId s"
    and m: "m = s \<and> (\<forall>x \<in> set symbols. databaseId x \<noteq> databaseId s) \<and> rest = symbols
         \<or> (\<exists>old \<in> set symbols. databaseId old = databaseId s \<and> m = mergeSymbol s old)"
    using upsertSymbol_shape [OF assms, of s] by metis
  from m have id: "databaseId m = databaseId s" by auto
  from m have "mergeSymbol s m =
      m\<lparr>radials := mergeRings (radials s) (radials m), radii := mergeRings (radii s) (radii m)\<rparr>"
    using mergeSymbol_again mergeSymbol_self by auto
  then show ?thesis
    by (simp add: U upsertSymbol_last_entry [OF rest id])
qed

lemma upsertSymbol_twice_no_rings:
  assumes "distinct (map databaseId symbols)"
    and "radials s = None \<or> radials s = Some []" and "radii s = None \<or> radii s = Some []"
  shows "upsertSymbol (upsertSymbol symbols s) s = upsertSymbol symbols s"
proof -
  obtain rest m where U: "upsertSymbol symbols s = rest @ [m]"
    and rest: "\<forall>x \<in> set rest. databaseId x \<noteq> databaseId s"
    and m: "m = s \<and> (\<forall>x \<in> set symbols. databaseId x \<noteq> databaseId s) \<and> rest = symbols
         \<or> (\<exists>old \<in> set symbols. databaseId old = databaseId s \<and> m = mergeSymbol s old)"
    using upsertSymbol_shape [OF assms(1), of s] by metis
  from m have id: "databaseId m = databaseId s" by auto
  from m have "mergeSymbol s m = m"
  proof
    assume "m = s \<and> (\<forall>x \<in> set symbols. databaseId x \<noteq> databaseId s) \<and> rest = symbols"
    then show ?thesis
      using assms(2,3) by (simp add: mergeSymbol_self mergeRings_no_rings)
  next
    assume "\<exists>old \<in> set symbols. databaseId old = databaseId s \<and> m = mergeSymbol s old"
    then obtain old where "m = mergeSymbol s old" by blast
    moreover have "radials (mergeSymbol s old) = mergeRings (radials s) (radials old)"
      "radii (mergeSymbol s old) = mergeRings (radii s) (radii old)"
      by (simp_all add: mergeSymbol_def)
    ultimately show ?thesis
      using assms(2,3) by (simp add: mergeSymbol_again mergeRings_no_rings)
  qed
  then show ?thesis
    by (simp add: U upsertSymbol_last_entry [OF rest id])
qed

lemma foldr_OR_init: "foldr (OR) ts (a :: 32 word) = foldr (OR) ts 0 OR a"
  by (induction ts) (simp_all add: or.assoc)

lemma typeFlagsOf_snoc:
  "typeFlagsOf k (xs @ [x]) =
     (if databaseId x = k then type x OR typeFlagsOf k xs else typeFlagsOf k xs)"
  using foldr_OR_init [of _ "type x"] by (simp add: typeFlagsOf_def or.commute)

lemma typeFlagsOf_absent:
  "k \<notin> set (map databaseId xs) \<Longrightarrow> typeFlagsOf k xs = 0"
proof -
  assume "k \<notin> set (map databaseId xs)"
  then have "filter (\<lambda>s. databaseId s = k) xs = []"
    by (auto simp: filter_empty_conv)
  then show ?thesis by (simp add: typeFlagsOf_def)
qed

lemma upsertAll_snoc: "upsertAll symbols (xs @ [x]) = upsertSymbol (upsertAll symbols xs) x"
  by (simp add: upsertAll_def)

lemma insert_set_remove1: "insert k (set (remove1 k xs)) = insert k (set xs)"
  by (induction xs) auto

lemma set_ids_upsertSymbol:
  "set (map databaseId (upsertSymbol symbols s)) = insert (databaseId s) (set (map databaseId symbols))"
  unfolding ids_upsertSymbol using insert_set_remove1 [of "databaseId s" "map databaseId symbols"]
  by simp

lemma upsertAll_types:
  "distinct (map databaseId (upsertAll [] xs))
   \<and> set (map databaseId (upsertAll [] xs)) = set (map databaseId xs)
   \<and> (\<forall>e \<in> set (upsertAll [] xs). type e = typeFlagsOf (databaseId e) xs)"
proof (induction xs rule: rev_induct)
  case Nil
  then show ?case by (simp add: upsertAll_def)
next
  case (snoc s xs)
  let ?L = "upsertAll [] xs"
  from snoc have d: "distinct (map databaseId ?L)"
    and ids: "set (map databaseId ?L) = set (map databaseId xs)"
    and ty: "\<forall>e \<in> set ?L. type e = typeFlagsOf (databaseId e) xs"
    by simp_all
  obtain rest m where U: "upsertSymbol ?L s = rest @ [m]"
    and rest: "\<forall>x \<in> set rest. databaseId x \<noteq> databaseId s"
    and sub: "set rest \<subseteq> set ?L"
    and m: "m = s \<and> (\<forall>x \<in> set ?L. databaseId x \<noteq> databaseId s) \<and> rest = ?L
         \<or> (\<exists>old \<in> set ?L. databaseId old = databaseId s \<and> m = mergeSymbol s old)"
    using upsertSymbol_shape [OF d, of s] by metis
  have 1: "distinct (map databaseId (upsertAll [] (xs @ [s])))"
    by (simp add: upsertAll_snoc distinct_upsertSymbol d)
  have 2: "set (map databaseId (upsertAll [] (xs @ [s]))) = set (map databaseId (xs @ [s]))"
    using ids by (simp only: upsertAll_snoc set_ids_upsertSymbol) auto
  have 3: "type e = typeFlagsOf (databaseId e) (xs @ [s])" if "e \<in> set rest" for e
    using that rest sub ty by (auto simp: typeFlagsOf_snoc)
  have 4: "type m = typeFlagsOf (databaseId m) (xs @ [s])"
    using m
  proof
    assume a: "m = s \<and> (\<forall>x \<in> set ?L. databaseId x \<noteq> databaseId s) \<and> rest = ?L"
    then have "databaseId s \<notin> set (map databaseId xs)"
      using ids by (metis image_iff set_map)
    then show ?thesis
      using a by (simp add: typeFlagsOf_snoc typeFlagsOf_absent)
  next
    assume "\<exists>old \<in> set ?L. databaseId old = databaseId s \<and> m = mergeSymbol s old"
    then obtain old where "old \<in> set ?L" "databaseId old = databaseId s" "m = mergeSymbol s old"
      by blast
    then show ?thesis
      using ty by (auto simp: typeFlagsOf_snoc mergeSymbol_def)
  qed
  show ?case
    using 1 2 3 4 by (auto simp: upsertAll_snoc U)
qed

text \<open>
  Claim C10. Starting from the empty working list, after any sequence of upsertSymbol
  calls no two symbols of the list carry the same databaseId.
\<close>

theorem working_list_ids_distinct: "distinct (map databaseId (upsertAll [] xs))"
  by (rule distinct_upsertAll) simp

section \<open>upsertSymbol applied twice\<close>

text \<open>
  Claim C2, amended. On a working list with one entry per identifier, upserting a symbol
  a second time changes nothing but the radials and radii of the merged entry, to which
  the symbol's own radials and radii are appended once more; so the upsert is idempotent
  for every symbol whose radials and radii are absent or empty. In a list built from the
  empty one, the type of each entry is the bitwise OR of the types of all the upserted
  symbols that carry its identifier.
\<close>

theorem upsertSymbol_twice:
  assumes "distinct (map databaseId symbols)"
  shows "upsertSymbol (upsertSymbol symbols s) s =
           butlast (upsertSymbol symbols s)
           @ [(last (upsertSymbol symbols s))
                \<lparr>radials := mergeRings (radials s) (radials (last (upsertSymbol symbols s))),
                 radii := mergeRings (radii s) (radii (last (upsertSymbol symbols s)))\<rparr>]
         \<and> ((radials s = None \<or> radials s = Some []) \<and> (radii s = None \<or> radii s = Some [])
              \<longrightarrow> upsertSymbol (upsertSymbol symbols s) s = upsertSymbol symbols s)
         \<and> (\<forall>e \<in> set (upsertAll [] history). type e = typeFlagsOf (databaseId e) history)"
  using upsertSymbol_twice_shape [OF assms] upsertSymbol_twice_no_rings [OF assms]
    upsertAll_types [of history]
  by blast

text \<open>
  The theorem at a list with one entry and a symbol with the same identifier and other
  type flags.
\<close>

theorem upsertSymbol_twice_witness:
  "distinct (map databaseId [plainSymbol 1])
   \<and> upsertSymbol (upsertSymbol [plainSymbol 1] (plainSymbol 4)) (plainSymbol 4)
       = upsertSymbol [plainSymbol 1] (plainSymbol 4)
   \<and> upsertSymbol [plainSymbol 1] (plainSymbol 4) = [plainSymbol 5]
   \<and> type (last (upsertAll [] [plainSymbol 1, plainSymbol 4])) = 1 OR 4"
proof -
  have d: "distinct (map databaseId [plainSymbol 1])" by simp
  have u: "upsertSymbol [plainSymbol 1] (plainSymbol 4) = [plainSymbol 5]"
    by (simp add: upsertSymbol_def plainSymbol_def symbolOf_def mergeSymbol_def nullish_def
        mergeRings_def)
  have a: "upsertAll [] [plainSymbol 1, plainSymbol 4] = [plainSymbol 5]"
    by (simp add: upsertAll_def upsertSymbol_def plainSymbol_def symbolOf_def mergeSymbol_def
        nullish_def mergeRings_def)
  have n: "(radials (plainSymbol 4) = None \<or> radials (plainSymbol 4) = Some [])
           \<and> (radii (plainSymbol 4) = None \<or> radii (plainSymbol 4) = Some [])"
    by (simp add: plainSymbol_def symbolOf_def)
  from upsertSymbol_twice [OF d, of "plainSymbol 4" "[plainSymbol 1, plainSymbol 4]"] n
  have 1: "upsertSymbol (upsertSymbol [plainSymbol 1] (plainSymbol 4)) (plainSymbol 4)
       = upsertSymbol [plainSymbol 1] (plainSymbol 4)"
    and 2: "\<forall>e \<in> set (upsertAll [] [plainSymbol 1, plainSymbol 4]).
              type e = typeFlagsOf (databaseId e) [plainSymbol 1, plainSymbol 4]"
    by blast+
  from 2 have 3: "type (plainSymbol 5) = typeFlagsOf (databaseId (plainSymbol 5)) [plainSymbol 1, plainSymbol 4]"
    unfolding a by simp
  have 4: "typeFlagsOf (databaseId (plainSymbol 5)) [plainSymbol 1, plainSymbol 4] = 1 OR 4"
    by (simp add: typeFlagsOf_def plainSymbol_def symbolOf_def)
  have "type (last (upsertAll [] [plainSymbol 1, plainSymbol 4])) = 1 OR 4"
    using 3 4 by (simp add: a)
  with d u 1 show ?thesis by blast
qed

text \<open>
  Claim C2 as stated fails for a symbol that carries a radial: the second upsert of the
  same symbol leaves the radial twice in the entry.
\<close>

theorem upsertSymbol_twice_counterexample:
  "radials (last (upsertSymbol [] ringSymbol)) = Some [90]
   \<and> radials (last (upsertSymbol (upsertSymbol [] ringSymbol) ringSymbol)) = Some [90, 90]
   \<and> upsertSymbol (upsertSymbol [] ringSymbol) ringSymbol \<noteq> upsertSymbol [] ringSymbol"
  by (simp add: upsertSymbol_def ringSymbol_def symbolOf_def mergeSymbol_def nullish_def
        mergeRings_def)

section \<open>tryUpdateFlightPlanGeometry: the two early returns\<close>

text \<open>
  Claim C5. When the plan of the slot exists and its version equals the version last seen
  for the flight-plan index, the call with \<open>force = false\<close> returns without an
  exception and leaves the controller as it was, the map of geometries and the map of
  last-seen versions included.
\<close>

theorem tryUpdateFlightPlanGeometry_unchanged_version:
  assumes "flightPlanService sim i = Some fp"
    and "lastFlightPlanVersions s i
           = Some (if alternate then version (alternateFlightPlan fp) else version fp)"
  shows "tryUpdateFlightPlanGeometry sim col i alternate False s = (None, s)
         \<and> flightPlanGeometries (snd (tryUpdateFlightPlanGeometry sim col i alternate False s))
             = flightPlanGeometries s
         \<and> lastFlightPlanVersions (snd (tryUpdateFlightPlanGeometry sim col i alternate False s))
             = lastFlightPlanVersions s"
proof -
  have "tryUpdateFlightPlanGeometry sim col i alternate False s = (None, s)"
    using assms by (simp add: tryUpdateFlightPlanGeometry_def BaseFlightPlan.truncate_def)
  then show ?thesis by simp
qed

text \<open>The theorem at the active plan of the sample inputs, seen before at its version 3.\<close>

theorem tryUpdateFlightPlanGeometry_unchanged_version_witness:
  "flightPlanService someSimVars 0 = Some somePlan
   \<and> lastFlightPlanVersions tracked 0 = Some (version somePlan)
   \<and> tryUpdateFlightPlanGeometry someSimVars quiet 0 False False tracked = (None, tracked)"
proof -
  have 1: "flightPlanService someSimVars 0 = Some somePlan"
    by (simp add: someSimVars_def)
  have 2: "lastFlightPlanVersions tracked 0
            = Some (if False then version (alternateFlightPlan somePlan) else version somePlan)"
    by (simp add: tracked_def somePlan_def)
  from tryUpdateFlightPlanGeometry_unchanged_version [OF 1 2, of quiet] 1 2
  show ?thesis by simp
qed

text \<open>
  Claim C6. When the flight-plan service has no plan at the index, the call only removes
  the entry of the slot from the map of geometries: afterwards the slot has no geometry,
  nothing was rebuilt and nothing else changed.
\<close>

theorem tryUpdateFlightPlanGeometry_evicts:
  assumes "flightPlanService sim i = None"
  shows "tryUpdateFlightPlanGeometry sim col i alternate force s
           = (None, s\<lparr>flightPlanGeometries :=
                          (flightPlanGeometries s)(geometryKey i alternate := None)\<rparr>)
         \<and> getGeometryForFlightPlan (snd (tryUpdateFlightPlanGeometry sim col i alternate force s))
              i alternate = None"
  using assms
  by (simp add: tryUpdateFlightPlanGeometry_def getGeometryForFlightPlan_def geometryKey_def)

text \<open>The theorem at the temporary slot of the sample inputs, which holds a stale geometry.\<close>

theorem tryUpdateFlightPlanGeometry_evicts_witness:
  "flightPlanService someSimVars 1 = None
   \<and> flightPlanGeometries tracked (geometryKey 1 False) = Some 6
   \<and> getGeometryForFlightPlan (snd (tryUpdateFlightPlanGeometry someSimVars quiet 1 False False tracked))
        1 False = None"
proof -
  have 1: "flightPlanService someSimVars 1 = None"
    by (simp add: someSimVars_def)
  have 2: "flightPlanGeometries tracked (geometryKey 1 False) = Some 6"
    by (simp add: tracked_def geometryKey_def)
  from tryUpdateFlightPlanGeometry_evicts [OF 1, of quiet False False tracked] 1 2
  show ?thesis by blast
qed

section \<open>init: the EfisState of the right side\<close>

lemma initialised_eq:
  "GuidanceController_init someSimVars quiet constructed =
     (None,
      constructed
        \<lparr>leftEfisState := \<lparr>mode_nd = ARC, range_nm = 10, dataLimitReached = False, legsCulled = False\<rparr>,
         rightEfisState := \<lparr>mode_nd = ARC, range_nm = 10, dataLimitReached = False, legsCulled = False\<rparr>,
         efisStateForSide := (\<lambda>side. LeftEfisState),
         console := [''[FMGC/Guidance] GuidanceController initialized!''],
         ext := [''lnavDriver.ppos'', ''updateEfisApproachMessage'', ''updateEfisApproachMessage'',
                 ''lnavDriver.init'', ''vnavDriver.init'', ''pseudoWaypoints.init'', ''Coherent.on'']\<rparr>)"
  by (simp add: GuidanceController_init_def updateEfisState_def quiet_def called_def
      someSimVars_def constructed_def deref_def assign_def fun_eq_iff split: EfisSide.split)

text \<open>
  Claim C4, at the controller that init leaves. The entry of efisStateForSide for the
  right side refers to the left EfisState object; once dataLimitReached is set for the
  left side, updateMapPartlyDisplayed reports the map of the right side as partly
  displayed, although neither flag is set in rightEfisState, the object that
  updateEfisState refreshes for the right side.
\<close>

theorem right_side_reads_left_state:
  "efisStateForSide initialised R = LeftEfisState
   \<and> MAP_PARTLY_DISPLAYED (snd (updateMapPartlyDisplayed (setDataLimitReached L True initialised))) R
   \<and> \<not> dataLimitReached (rightEfisState (setDataLimitReached L True initialised))
   \<and> \<not> legsCulled (rightEfisState (setDataLimitReached L True initialised))"
  unfolding initialised_def initialised_eq
  by (simp add: updateMapPartlyDisplayed_def setDataLimitReached_def deref_def assign_def)

section \<open>update: which stages are contained\<close>

lemma fst_tryCatch: "fst (tryCatch msg body s) = None"
  by (simp add: tryCatch_def split: prod.splits option.splits)

lemma sequence_never_throws:
  "(\<And>a s. a \<in> set xs \<Longrightarrow> fst (a s) = None) \<Longrightarrow> fst (sequence xs s) = None"
proof (induction xs arbitrary: s)
  case Nil
  then show ?case by simp
next
  case (Cons a xs)
  obtain e s' where a: "a s = (e, s')" by (cases "a s")
  with Cons.prems [of a s] have "e = None" by simp
  with a Cons show ?case by simp
qed

lemma update_contains_later_stages:
  assumes "\<And>s. fst (updateEfisState sim col L LeftEfisState s) = None"
    and "\<And>s. fst (updateEfisState sim col R RightEfisState s) = None"
  shows "fst (GuidanceController_update sim col dt s) = None"
  unfolding GuidanceController_update_def Let_def
  by (rule sequence_never_throws) (auto simp: fst_tryCatch assms)

lemma update_propagates_efis_state_fault:
  assumes "updateEfisState sim col L LeftEfisState
             (s\<lparr>geometryRecomputationTimer := geometryRecomputationTimer s + dt\<rparr>) = (Some e, s')"
  shows "GuidanceController_update sim col dt s = (Some e, s')"
  using assms by (simp add: GuidanceController_update_def Let_def)

lemma updateEfisState_quiet:
  assumes "taskQueue_cancelAllInCategory_EfisVectors col = called a"
    and "efisVectors_forceUpdate col = called b" and "updateEfisApproachMessage col = called c"
  shows "fst (updateEfisState sim col side r s) = None"
  using assms by (simp add: updateEfisState_def called_def)

text \<open>
  Claim C3, at a tick in which the mode of the left side has changed. An exception thrown
  by the forced EFIS-vector refresh inside updateEfisState leaves update with that
  exception, after the cancellation of the pending tasks and before any later stage; the
  same kind of exception thrown by the LNAV driver update is caught.
\<close>

theorem efis_state_refresh_is_not_contained:
  "GuidanceController_update planModeSelected
       (quiet\<lparr>efisVectors_forceUpdate := throwing ''efisVectors.forceUpdate failed''\<rparr>) 100
       (initialised\<lparr>ext := []\<rparr>)
     = (Some (Error ''efisVectors.forceUpdate failed''),
        initialised\<lparr>geometryRecomputationTimer := GEOMETRY_RECOMPUTATION_TIMER + 1 + 100,
                     ext := [''taskQueue.cancelAllInCategory'']\<rparr>)
   \<and> fst (GuidanceController_update planModeSelected
             (quiet\<lparr>lnavDriver_update := (\<lambda>dt. throwing ''lnavDriver.update failed'')\<rparr>) 100
             (initialised\<lparr>ext := []\<rparr>)) = None"
proof
  show "GuidanceController_update planModeSelected
       (quiet\<lparr>efisVectors_forceUpdate := throwing ''efisVectors.forceUpdate failed''\<rparr>) 100
       (initialised\<lparr>ext := []\<rparr>)
     = (Some (Error ''efisVectors.forceUpdate failed''),
        initialised\<lparr>geometryRecomputationTimer := GEOMETRY_RECOMPUTATION_TIMER + 1 + 100,
                     ext := [''taskQueue.cancelAllInCategory'']\<rparr>)"
    unfolding initialised_def initialised_eq
    by (rule update_propagates_efis_state_fault)
      (simp add: updateEfisState_def planModeSelected_def quiet_def called_def throwing_def
        deref_def assign_def constructed_def)
  show "fst (GuidanceController_update planModeSelected
             (quiet\<lparr>lnavDriver_update := (\<lambda>dt. throwing ''lnavDriver.update failed'')\<rparr>) 100
             (initialised\<lparr>ext := []\<rparr>)) = None"
    by (rule update_contains_later_stages; rule updateEfisState_quiet) (simp_all add: quiet_def)
qed

section \<open>The edit-area test\<close>

text \<open>
  With a termination location of the plan centre at hand, withinEditArea is the test of
  the specification. A candidate at the reference point is then within every edit area
  with positive ahead, behind and beside distances, provided the library's distance from
  a point to itself is 0.
\<close>

lemma withinEditArea_Some:
  "withinEditArea g (Some c) m p h area ll = spec_within_edit_area g m p h c area ll"
  by (cases area; cases m)
    (auto simp: withinEditArea_def spec_within_edit_area_def spec_reference_point_def
      spec_along_track_def spec_cross_track_def spec_relative_bearing_def Let_def)

lemma withinEditArea_at_reference_point:
  assumes "distanceTo g (spec_reference_point m p c) (spec_reference_point m p c) = 0"
    and "0 < ahead" and "0 < behind" and "0 < beside"
  shows "withinEditArea g (Some c) m p h (ahead, behind, beside) (spec_reference_point m p c)"
  using assms by (cases m) (simp_all add: withinEditArea_def spec_reference_point_def Let_def)

lemma withinEditArea_on_the_meridian:
  "withinEditArea meridian (Some (northOf 30)) ARC (northOf 0) 0 (10.5, 3.5, 8.3) (northOf 0)
   \<and> withinEditArea meridian (Some (northOf 30)) ARC (northOf 0) 0 (10.5, 3.5, 8.3) (northOf 9)
   \<and> \<not> withinEditArea meridian (Some (northOf 30)) ARC (northOf 0) 0 (10.5, 3.5, 8.3) (northOf 11)"
  by (simp add: withinEditArea_Some spec_within_edit_area_def spec_reference_point_def
      spec_along_track_def spec_cross_track_def spec_relative_bearing_def meridian_def
      northOf_def)

text \<open>
  Claim C8, in ARC mode at range 10 with the aircraft at the origin of the meridian chart,
  heading north, and a plan centre without a termination location. The candidate 11 NM
  ahead lies beyond the ahead distance of 10.5 NM: the test of the specification excludes
  it whatever the plan centre, and withinEditArea excludes it as soon as the plan centre
  has a termination location, which the test does not read in ARC mode; without one,
  withinEditArea includes it.
\<close>

theorem withinEditArea_without_termination_includes_all:
  "withinEditArea meridian None ARC (northOf 0) 0 (calculateEditArea 10 ARC) (northOf 11)
   \<and> (\<forall>c. \<not> spec_within_edit_area meridian ARC (northOf 0) 0 c (calculateEditArea 10 ARC)
               (northOf 11))
   \<and> (\<forall>c. \<not> withinEditArea meridian (Some c) ARC (northOf 0) 0 (calculateEditArea 10 ARC)
               (northOf 11))"
  by (simp add: withinEditArea_def calculateEditArea_def spec_within_edit_area_def
      spec_reference_point_def spec_along_track_def spec_cross_track_def
      spec_relative_bearing_def meridian_def northOf_def)

text \<open>The first conjunct and, at the plan centre 30 NM north, the last.\<close>

theorem withinEditArea_without_termination_includes_all_witness:
  "withinEditArea meridian None ARC (northOf 0) 0 (calculateEditArea 10 ARC) (northOf 11)
   \<and> \<not> withinEditArea meridian (Some (northOf 30)) ARC (northOf 0) 0 (calculateEditArea 10 ARC)
         (northOf 11)"
  using withinEditArea_without_termination_includes_all by blast

section \<open>The symbol budget\<close>

lemma upsertAll_distinct:
  "distinct (map databaseId (ys @ xs)) \<Longrightarrow> upsertAll ys xs = ys @ xs"
proof (induction xs arbitrary: ys)
  case Nil
  then show ?case by (simp add: upsertAll_def)
next
  case (Cons x xs)
  then have "databaseId x \<notin> databaseId ` set ys"
    by simp
  then have "\<forall>y \<in> set ys. databaseId y \<noteq> databaseId x"
    by (metis image_eqI)
  then have "upsertSymbol ys x = ys @ [x]"
    by (rule upsertSymbol_absent)
  moreover have "upsertAll (ys @ [x]) xs = (ys @ [x]) @ xs"
    using Cons.prems by (intro Cons.IH) simp
  ultimately show ?case
    by (simp add: upsertAll_def)
qed

lemma maxSymbols_eq: "maxSymbols = 320 / 3"
  by (simp add: maxSymbols_def wordsPerSymbol_def)

lemma truncateSymbols_over:
  assumes "107 \<le> length xs"
  shows "truncateSymbols xs = (drop (length xs - 107) xs, True)"
proof -
  let ?n = "length xs"
  have gt: "real ?n > maxSymbols"
    using assms by (simp add: maxSymbols_eq)
  have "\<lfloor>real ?n - maxSymbols\<rfloor> = int ?n - 107"
    using assms by (intro floor_unique) (simp_all add: maxSymbols_eq)
  then have "toIntegerOrInfinity (real ?n - maxSymbols) = int ?n - 107"
    using gt by (simp add: toIntegerOrInfinity_def)
  then have "splice0 xs (real ?n - maxSymbols) = drop (?n - 107) xs"
    using assms by (simp add: splice0_def nat_diff_distrib')
  then show ?thesis
    using gt by (simp add: truncateSymbols_def)
qed

lemma truncateSymbols_within:
  assumes "length xs \<le> 106"
  shows "truncateSymbols xs = (xs, False)"
  using assms by (simp add: truncateSymbols_def maxSymbols_eq)

lemma crowd_eq: "crowd = map (\<lambda>n. symbolOf (replicate (Suc n) CHR ''N'') ''NDB'' (Some (northOf (real n))) 68) [0..<107]"
  by (simp add: crowd_def tunedSymbols_def crowdedInputs_def someInputs_def ndbNumber_def
      someFlags_def comp_def)

lemma length_crowd: "length crowd = 107"
  by (simp add: crowd_eq)

lemma distinct_crowd: "distinct (map databaseId crowd)"
proof -
  have "inj_on (\<lambda>n. replicate (Suc n) CHR ''N'') (set [0..<107])"
    by (rule inj_onI) (metis length_replicate nat.inject)
  then show ?thesis
    by (simp add: crowd_eq symbolOf_def comp_def distinct_map)
qed

lemma crowded_fields:
  "flightPlanService crowdedInputs = (\<lambda>i. if i = 0 then Some centredPlan else None)"
  "FlightPlanIndex crowdedInputs = \<lparr>Active = 0, Temporary = 1, FirstSecondary = 2\<rparr>"
  "ND_MODE crowdedInputs = (\<lambda>side. ARC)"
  "ND_RANGE crowdedInputs = (\<lambda>side. 10)"
  "PLANE_POSITION crowdedInputs = northOf 0"
  "PLANE_HEADING_DEGREES_TRUE crowdedInputs = 0"
  "EFIS_OPTION crowdedInputs = (\<lambda>side. None_option)"
  "SELECTED_WAYPOINT_FP_INDEX crowdedInputs = 0"
  "SELECTED_WAYPOINT_INDEX crowdedInputs = 0"
  "SELECTED_WAYPOINT_IN_ALTERNATE crowdedInputs = False"
  "nearbyVersion crowdedInputs = 1"
  "navaidVersion crowdedInputs = 1"
  "vnavDriverVersion crowdedInputs = 1"
  "currentPseudoWaypoints crowdedInputs = []"
  "getFlightPlanSymbols crowdedInputs = (\<lambda>call side. [])"
  "geo crowdedInputs = meridian"
  by (simp_all add: crowdedInputs_def someInputs_def)

lemma sidePass_crowded:
  assumes "lastMode this side = None" and "planCentre loc \<noteq> None"
  shows "sidePass crowdedInputs loc side this =
           Continue
             ((sendEvent side crowd
                (this\<lparr>lastRange := (lastRange this)(side := 10),
                       lastMode := (lastMode this)(side := Some ARC),
                       lastEfisOption := (lastEfisOption this)(side := None_option),
                       guidanceController :=
                         setDataLimitReached side True (guidanceController this)\<rparr>))
              \<lparr>blockUpdate := True\<rparr>)"
proof -
  have 1: "nearbySymbols crowdedInputs w None_option = []" for w
    by (simp add: nearbySymbols_def)
  have 2: "flightPlanCandidates crowdedInputs side = []"
    by (simp add: flightPlanCandidates_def crowded_fields has_def centredPlan_def noLegs_def)
  have 3: "pseudoWaypointSymbols [] = []"
    by (simp add: pseudoWaypointSymbols_def List.map_filter_simps)
  have 4: "upsertAll [] crowd = crowd"
    using upsertAll_distinct [of "[]" crowd] distinct_crowd by simp
  have 5: "truncateSymbols crowd = (crowd, True)"
    using truncateSymbols_over [of crowd] by (simp add: length_crowd)
  have 6: "upsertAll [] [] = []"
    by (simp add: upsertAll_def)
  show ?thesis
    using assms
    by (simp add: sidePass_def Let_def crowded_fields 1 2 3 4 5 6 crowd_def [symmetric])
qed

lemma forOf_crowded:
  assumes "lastMode this L = None" and "lastMode this R = None" and "planCentre loc \<noteq> None"
  shows "syncer (forOf (sidePass crowdedInputs loc) sides this) = syncer this @ [(L, crowd), (R, crowd)]"
    and "guidanceController (forOf (sidePass crowdedInputs loc) sides this)
          = setDataLimitReached R True (setDataLimitReached L True (guidanceController this))"
  using assms by (simp_all add: sides_def sidePass_crowded sendEvent_def)

text \<open>
  Claim C1, at 107 candidates. Each side is sent all 107 symbols, which take more than
  640 words at 6 words a symbol, and dataLimitReached is set.
\<close>

theorem budget_exceeded_by_one:
  "syncer (snd (EfisSymbols_update crowdedInputs freshGenerator)) = [(L, crowd), (R, crowd)]
   \<and> length crowd = 107
   \<and> real (length crowd) * wordsPerSymbol > 640
   \<and> dataLimitReached (leftEfisState (guidanceController (snd (EfisSymbols_update crowdedInputs freshGenerator))))"
proof -
  have "syncer (snd (EfisSymbols_update crowdedInputs freshGenerator)) = [(L, crowd), (R, crowd)]"
    by (simp add: EfisSymbols_update_def Let_def crowded_fields forOf_crowded freshGenerator_def
        centredPlan_def BaseFlightPlan.truncate_def meridian_def northOf_def)
  moreover have "dataLimitReached (leftEfisState (guidanceController (snd (EfisSymbols_update crowdedInputs freshGenerator))))"
    unfolding initialised_def initialised_eq
    by (simp add: EfisSymbols_update_def Let_def crowded_fields forOf_crowded freshGenerator_def
        centredPlan_def BaseFlightPlan.truncate_def meridian_def northOf_def
        setDataLimitReached_def assign_def initialised_def initialised_eq)
  ultimately show ?thesis
    by (simp add: length_crowd wordsPerSymbol_def)
qed

text \<open>The lengths of the two lists sent in that invocation.\<close>

theorem budget_exceeded_by_one_witness:
  "map (\<lambda>e. (fst e, length (snd e))) (syncer (snd (EfisSymbols_update crowdedInputs freshGenerator)))
     = [(L, 107), (R, 107)]"
  using budget_exceeded_by_one by simp

section \<open>PLAN mode without a plan centre\<close>

lemma lostCentre_fields:
  "flightPlanService lostCentre = (\<lambda>i. if i = 0 then Some somePlan else None)"
  "FlightPlanIndex lostCentre = \<lparr>Active = 0, Temporary = 1, FirstSecondary = 2\<rparr>"
  "ND_MODE lostCentre = (\<lambda>side. case side of L \<Rightarrow> PLAN | R \<Rightarrow> ARC)"
  "ND_RANGE lostCentre = (\<lambda>side. 10)"
  "PLANE_POSITION lostCentre = northOf 0"
  "PLANE_HEADING_DEGREES_TRUE lostCentre = 0"
  "EFIS_OPTION lostCentre = (\<lambda>side. None_option)"
  "SELECTED_WAYPOINT_FP_INDEX lostCentre = 0"
  "SELECTED_WAYPOINT_INDEX lostCentre = 0"
  "SELECTED_WAYPOINT_IN_ALTERNATE lostCentre = False"
  "nearbyVersion lostCentre = 1"
  "navaidVersion lostCentre = 1"
  "vnavDriverVersion lostCentre = 1"
  "currentPseudoWaypoints lostCentre = []"
  "getFlightPlanSymbols lostCentre = (\<lambda>call side. [])"
  "tunedNdbs lostCentre = [ndbNumber 0]"
  "tunedVors lostCentre = []"
  "flags lostCentre = someFlags"
  "geo lostCentre = meridian"
  by (simp_all add: lostCentre_def someInputs_def)

text \<open>
  Claim C9, at a selected element that yields no plan centre. With the left side in PLAN
  mode, the invocation sends the left side the empty list and ends: nothing is sent to the
  right side and its change-detection fields are not touched. With the modes of the sides
  exchanged, both sides are sent a list. When the selected flight-plan index holds no
  plan, nothing is sent at all.
\<close>

theorem plan_mode_without_centre_ends_the_invocation:
  "syncer (snd (EfisSymbols_update lostCentre freshGenerator)) = [(L, [])]
   \<and> lastMode (snd (EfisSymbols_update lostCentre freshGenerator)) R = None
   \<and> map fst (syncer (snd (EfisSymbols_update lostCentreMirrored freshGenerator))) = [L, R]
   \<and> syncer (snd (EfisSymbols_update noPlanSelected freshGenerator)) = []"
proof -
  have 1: "EfisSymbols_update lostCentre freshGenerator
      = (None, freshGenerator
           \<lparr>lastNearbyFacilitiesVersion := Some 1,
            lastFpVersions := [0 \<mapsto> 3],
            lastNavaidVersion := 1,
            lastVnavDriverVersion := 1,
            lastRange := (\<lambda>side. 0)(L := 10),
            lastMode := (\<lambda>side. None)(L := Some PLAN),
            lastEfisOption := (\<lambda>side. None_option),
            syncer := [(L, [])]\<rparr>)"
    by (simp add: EfisSymbols_update_def Let_def lostCentre_fields freshGenerator_def
        somePlan_def BaseFlightPlan.truncate_def meridian_def northOf_def sides_def sidePass_def
        sendEvent_def fun_eq_iff)
  have 2: "map fst (syncer (snd (EfisSymbols_update lostCentreMirrored freshGenerator))) = [L, R]"
    by (simp add: EfisSymbols_update_def Let_def lostCentreMirrored_def lostCentre_fields
        freshGenerator_def somePlan_def BaseFlightPlan.truncate_def meridian_def northOf_def
        sides_def sidePass_def sendEvent_def truncateSymbols_within upsertAll_def
        nearbySymbols_def flightPlanCandidates_def has_def pseudoWaypointSymbols_def
        List.map_filter_simps tunedSymbols_def noLegs_def upsertSymbol_def)
  have 3: "syncer (snd (EfisSymbols_update noPlanSelected freshGenerator)) = []"
    by (simp add: EfisSymbols_update_def Let_def noPlanSelected_def lostCentre_fields
        freshGenerator_def meridian_def northOf_def)
  show ?thesis
    using 2 3 by (simp add: 1)
qed

text \<open>No event for the right side is among those sent in the first invocation.\<close>

theorem plan_mode_without_centre_ends_the_invocation_witness:
  "R \<notin> fst ` set (syncer (snd (EfisSymbols_update lostCentre freshGenerator)))"
  using plan_mode_without_centre_ends_the_invocation by simp

end
